theory Spec2Isabelle
  imports Complex_Main
begin

section \<open>JavaScript values\<close>

text \<open>
  A \<open>string\<close> stands for a JavaScript string all of whose UTF-16 code units are below 256,
  one \<open>char\<close> per code unit, so that \<open>length\<close> is the \<open>.length\<close> of the source. A number
  that reaches the handlers comes out of \<open>JSON.parse\<close>: a finite double, modelled by the
  rational it is. (A literal such as \<open>1e999\<close> reads as an infinity; every number schema below
  has bounds on both sides and rejects it, as it rejects a value that is not a number.) An
  object that comes out of \<open>JSON.parse\<close> holds each key once.
\<close>

datatype json =
    JNull
  | JBool bool
  | JNum rat
  | JStr string
  | JArr "json list"
  | JObj "(string \<times> json) list"

text \<open>Property access on a parsed object: \<open>None\<close> is \<open>undefined\<close>.\<close>

definition field :: "(string \<times> json) list \<Rightarrow> string \<Rightarrow> json option" where
  "field kvs k = map_of kvs k"

text \<open>\<open>!s\<close> on a value of type \<open>string | undefined\<close>: absent and empty are both falsy.\<close>

definition truthy :: "string option \<Rightarrow> bool" where
  "truthy s = (case s of None \<Rightarrow> False | Some v \<Rightarrow> v \<noteq> [])"

text \<open>\<open>Array.prototype.join\<close> on an array of strings.\<close>

fun join :: "string \<Rightarrow> string list \<Rightarrow> string" where
  "join sep [] = []"
| "join sep [x] = x"
| "join sep (x # y # ys) = x @ sep @ join sep (y # ys)"

text \<open>\<open>String.prototype.includes\<close>.\<close>

fun starts_with :: "string \<Rightarrow> string \<Rightarrow> bool" where
  "starts_with s [] = True"
| "starts_with [] (p # ps) = False"
| "starts_with (c # cs) (p # ps) = (c = p \<and> starts_with cs ps)"

fun includes_str :: "string \<Rightarrow> string \<Rightarrow> bool" where
  "includes_str [] pat = (pat = [])"
| "includes_str (c # cs) pat = (starts_with (c # cs) pat \<or> includes_str cs pat)"

text \<open>
  Template interpolation of a number. An integer below \<open>10^21\<close> in magnitude is printed in
  decimal; the text of any other number is the shortest decimal that reads back as the same
  double, which is left to the parameter \<open>fmt\<close>.
\<close>

definition digit_char :: "nat \<Rightarrow> char" where
  "digit_char d = ''0123456789'' ! d"

function nat_string :: "nat \<Rightarrow> string" where
  "nat_string n = (if n < 10 then [digit_char n] else nat_string (n div 10) @ [digit_char (n mod 10)])"
  by pat_completeness auto
termination
  by (relation "measure (\<lambda>n. n)") auto

definition int_string :: "int \<Rightarrow> string" where
  "int_string i = (if i < 0 then CHR ''-'' # nat_string (nat (- i)) else nat_string (nat i))"

definition is_integer :: "rat \<Rightarrow> bool" where
  "is_integer q = (of_int \<lfloor>q\<rfloor> = q)"

definition number_string :: "(rat \<Rightarrow> string) \<Rightarrow> rat \<Rightarrow> string" where
  "number_string fmt q =
     (if is_integer q \<and> \<bar>q\<bar> < 10 ^ 21 then int_string \<lfloor>q\<rfloor> else fmt q)"

section \<open>Schemas: the data model of \<open>lib/schemas.ts\<close>\<close>

text \<open>The key \<open>id\<close> of a scenario is the field \<open>id_s\<close>.\<close>

record scenario =
  id_s :: string
  title :: string
  summary :: string
  setting :: "string option"
  shotList :: "string list option"
  hook :: "string option"

record generationSettings =
  focusOnProduct :: rat
  shots :: rat
  visualStyle :: string
  tone :: string
  orientation :: string
  quality :: string
  addMotion :: "bool option"
  retouchProduct :: "bool option"
  includeCaptions :: "bool option"

subsection \<open>Validation\<close>

text \<open>
  A zod schema is a function from the value found (\<open>None\<close> when the key is absent) to either
  the list of issues or the parsed value. An issue is recorded by its path. An object schema
  checks every key it names, gathers the issues of all of them, and drops the other keys.
\<close>

type_synonym issue = "string list"

type_synonym 'a parsed = "issue list + 'a"

definition issues_of :: "'a parsed \<Rightarrow> issue list" where
  "issues_of r = (case r of Inl is \<Rightarrow> is | Inr _ \<Rightarrow> [])"

definition under :: "string \<Rightarrow> 'a parsed \<Rightarrow> 'a parsed" where
  "under k r = (case r of Inl is \<Rightarrow> Inl (map ((#) k) is) | Inr v \<Rightarrow> Inr v)"

text \<open>Two results together: both values, or the issues of both.\<close>

definition z_and :: "'a parsed \<Rightarrow> 'b parsed \<Rightarrow> ('a \<times> 'b) parsed" where
  "z_and ra rb =
     (case ra of
        Inr a \<Rightarrow> (case rb of Inr b \<Rightarrow> Inr (a, b) | Inl is \<Rightarrow> Inl is)
      | Inl is \<Rightarrow> Inl (is @ issues_of rb))"

definition z_string :: "json option \<Rightarrow> string parsed" where
  "z_string v = (case v of Some (JStr s) \<Rightarrow> Inr s | _ \<Rightarrow> Inl [[]])"

definition z_string_min :: "nat \<Rightarrow> json option \<Rightarrow> string parsed" where
  "z_string_min n v =
     (case v of Some (JStr s) \<Rightarrow> if length s < n then Inl [[]] else Inr s | _ \<Rightarrow> Inl [[]])"

definition z_boolean :: "json option \<Rightarrow> bool parsed" where
  "z_boolean v = (case v of Some (JBool b) \<Rightarrow> Inr b | _ \<Rightarrow> Inl [[]])"

text \<open>\<open>z.number()\<close> with optional \<open>.int()\<close>, then \<open>.min(lo).max(hi)\<close>; every failed check is an issue.\<close>

definition z_number :: "bool \<Rightarrow> rat \<Rightarrow> rat \<Rightarrow> json option \<Rightarrow> rat parsed" where
  "z_number whole lo hi v =
     (case v of
        Some (JNum q) \<Rightarrow>
          (let is = (if whole \<and> \<not> is_integer q then [[]] else [])
                    @ (if q < lo then [[]] else [])
                    @ (if hi < q then [[]] else [])
           in if is = [] then Inr q else Inl is)
      | _ \<Rightarrow> Inl [[]])"

definition z_optional :: "(json option \<Rightarrow> 'a parsed) \<Rightarrow> json option \<Rightarrow> 'a option parsed" where
  "z_optional p v =
     (case v of None \<Rightarrow> Inr None
      | Some j \<Rightarrow> (case p (Some j) of Inl is \<Rightarrow> Inl is | Inr a \<Rightarrow> Inr (Some a)))"

definition z_default :: "(json option \<Rightarrow> 'a parsed) \<Rightarrow> 'a \<Rightarrow> json option \<Rightarrow> 'a parsed" where
  "z_default p d v = (case v of None \<Rightarrow> Inr d | Some j \<Rightarrow> p (Some j))"

fun z_elements :: "(json option \<Rightarrow> 'a parsed) \<Rightarrow> nat \<Rightarrow> json list \<Rightarrow> 'a list parsed" where
  "z_elements p i [] = Inr []"
| "z_elements p i (j # js) =
     (case z_and (under (nat_string i) (p (Some j))) (z_elements p (Suc i) js) of
        Inr (a, as) \<Rightarrow> Inr (a # as)
      | Inl is \<Rightarrow> Inl is)"

definition z_array :: "(json option \<Rightarrow> 'a parsed) \<Rightarrow> nat \<Rightarrow> json option \<Rightarrow> 'a list parsed" where
  "z_array p least v =
     (case v of
        Some (JArr js) \<Rightarrow>
          (case z_elements p 0 js of
             Inr as \<Rightarrow> if length js < least then Inl [[]] else Inr as
           | Inl is \<Rightarrow> Inl ((if length js < least then [[]] else []) @ is))
      | _ \<Rightarrow> Inl [[]])"

definition scenarioSchema :: "json option \<Rightarrow> scenario parsed" where
  "scenarioSchema v =
     (case v of
        Some (JObj kvs) \<Rightarrow>
          (case z_and (under ''id'' (z_string (field kvs ''id'')))
                (z_and (under ''title'' (z_string (field kvs ''title'')))
                (z_and (under ''summary'' (z_string (field kvs ''summary'')))
                (z_and (under ''setting'' (z_optional z_string (field kvs ''setting'')))
                (z_and (under ''shotList'' (z_optional (z_array z_string 0) (field kvs ''shotList'')))
                       (under ''hook'' (z_optional z_string (field kvs ''hook''))))))) of
             Inr (a, b, c, d, e, f) \<Rightarrow>
               Inr \<lparr>id_s = a, title = b, summary = c, setting = d, shotList = e, hook = f\<rparr>
           | Inl is \<Rightarrow> Inl is)
      | _ \<Rightarrow> Inl [[]])"

record scenarioResponse =
  scenarios :: "scenario list"

definition scenarioResponseSchema :: "json option \<Rightarrow> scenarioResponse parsed" where
  "scenarioResponseSchema v =
     (case v of
        Some (JObj kvs) \<Rightarrow>
          (case under ''scenarios'' (z_array scenarioSchema 1 (field kvs ''scenarios'')) of
             Inr ss \<Rightarrow> Inr \<lparr>scenarios = ss\<rparr>
           | Inl is \<Rightarrow> Inl is)
      | _ \<Rightarrow> Inl [[]])"

definition generationSettingsSchema :: "json option \<Rightarrow> generationSettings parsed" where
  "generationSettingsSchema v =
     (case v of
        Some (JObj kvs) \<Rightarrow>
          (case z_and (under ''focusOnProduct'' (z_number False 1 5 (field kvs ''focusOnProduct'')))
                (z_and (under ''shots'' (z_number False 1 12 (field kvs ''shots'')))
                (z_and (under ''visualStyle'' (z_string (field kvs ''visualStyle'')))
                (z_and (under ''tone'' (z_string (field kvs ''tone'')))
                (z_and (under ''orientation'' (z_string (field kvs ''orientation'')))
                (z_and (under ''quality'' (z_string (field kvs ''quality'')))
                (z_and (under ''addMotion'' (z_optional z_boolean (field kvs ''addMotion'')))
                (z_and (under ''retouchProduct'' (z_optional z_boolean (field kvs ''retouchProduct'')))
                       (under ''includeCaptions''
                          (z_optional z_boolean (field kvs ''includeCaptions'')))))))))) of
             Inr (a, b, c, d, e, f, g, h, i) \<Rightarrow>
               Inr \<lparr>focusOnProduct = a, shots = b, visualStyle = c, tone = d, orientation = e,
                    quality = f, addMotion = g, retouchProduct = h, includeCaptions = i\<rparr>
           | Inl is \<Rightarrow> Inl is)
      | _ \<Rightarrow> Inl [[]])"

section \<open>Image generation: \<open>buildPrompt\<close>\<close>

text \<open>
  \<open>scenario.shotList?.length\<close> is falsy for an absent and for an empty list; a toggle is
  tested for truthiness, so an absent toggle counts as off.
\<close>

definition shotListText :: "scenario \<Rightarrow> string" where
  "shotListText sc =
     (case shotList sc of
        None \<Rightarrow> []
      | Some [] \<Rightarrow> []
      | Some (x # xs) \<Rightarrow> ''Key shots: '' @ join '', '' (x # xs) @ ''.'')"

definition prompt_notes :: "(rat \<Rightarrow> string) \<Rightarrow> generationSettings \<Rightarrow> string list" where
  "prompt_notes fmt st =
     [''Tone: '' @ tone st,
      ''Visual style: '' @ visualStyle st,
      ''Orientation: '' @ orientation st,
      ''Quality: '' @ quality st,
      ''Focus level (1-5): '' @ number_string fmt (focusOnProduct st)]
     @ (if addMotion st = Some True then [''Add subtle motion-friendly composition cues''] else [])
     @ (if retouchProduct st = Some True then [''Ensure the product looks polished and retouched''] else [])
     @ (if includeCaptions st = Some True
        then [''Include natural caption overlay space in the composition''] else [])"

definition buildPrompt ::
    "(rat \<Rightarrow> string) \<Rightarrow> scenario \<Rightarrow> string option \<Rightarrow> generationSettings \<Rightarrow> string" where
  "buildPrompt fmt sc productName st =
     ''Create a photorealistic UGC marketing photo for ''
       @ (case productName of None \<Rightarrow> ''the featured product'' | Some n \<Rightarrow> n) @ ''. ''
     @ ''Scenario title: '' @ title sc @ ''. '' @ summary sc @ ''. ''
       @ (case setting sc of None \<Rightarrow> [] | Some s \<Rightarrow> s) @ ''. '' @ shotListText sc @ '' ''
     @ ''The audience should immediately understand how it solves their need. ''
     @ ''Keep the composition authentic, candid, and ready for social media. ''
     @ join '' | '' (prompt_notes fmt st)"

section \<open>The server: environment, process state, collaborators\<close>

record env =
  GOOGLE_GEMINI_API_KEY :: "string option"
  GOOGLE_GEMINI_IMAGE_MODEL :: "string option"
  SUPABASE_URL :: "string option"
  SUPABASE_SERVICE_ROLE_KEY :: "string option"
  OPENAI_API_KEY :: "string option"
  OPENAI_ASSISTANT_ID :: "string option"

text \<open>The handle \<open>createClient\<close> returns: its arguments and the rank of its construction.\<close>

record supabaseClient =
  client_url :: string
  client_key :: string
  client_rank :: nat

record geminiRequest =
  endpoint :: string
  x_goog_api_key :: string
  prompt_text :: string
  inline_mimeType :: string
  inline_data :: string

record generationRow =
  thread_id :: "string option"
  scenario_id :: string
  scenario_title :: string
  scenario_summary :: string
  row_settings :: generationSettings
  created_at :: string

text \<open>What can be thrown inside the \<open>try\<close> block of a route.\<close>

datatype thrown =
    FetchRejected
  | BodyUnreadable
  | GenerationFailed nat string
  | NoImageData
  | AssistantRejected
  | RunNotCompleted string
  | NoTextContent
  | SyntaxError
  | ZodError "issue list"

text \<open>The calls made on the assistant provider's client, with their arguments.\<close>

datatype assistantCall =
    ThreadsCreate
  | MessagesCreate string string
  | RunsCreateAndPoll string string string
  | MessagesList string

datatype logEntry =
    ConsoleWarn string string
  | ConsoleError string thrown

text \<open>
  The state of the server process: the module variable \<open>cachedClient\<close>, and a trace of the
  effects performed so far (clients constructed, image provider requests sent, datastore
  inserts, assistant provider calls, console output).
\<close>

record server =
  cachedClient :: "supabaseClient option"
  constructed :: "supabaseClient list"
  fetched :: "geminiRequest list"
  inserted :: "generationRow list list"
  assistant_calls :: "assistantCall list"
  console :: "logEntry list"

subsection \<open>The provider's response, as the route types it\<close>

text \<open>
  The route casts the body of the response to \<open>GeminiCandidate\<close> and \<open>GeminiInlinePart\<close>; the
  model takes a body of these types. A string that is present can still be empty, which the
  guards of the route treat as absent.
\<close>

record inlineData =
  data :: "string option"
  mimeType :: "string option"

record geminiInlinePart =
  inlineData :: "inlineData option"

record geminiContent =
  parts :: "geminiInlinePart list option"

record geminiCandidate =
  content :: "geminiContent option"

record geminiBody =
  candidates :: "geminiCandidate list option"

text \<open>
  A \<open>fetch\<close> either rejects or resolves to a response. \<open>body_text\<close> is \<open>response.text()\<close> and
  \<open>body_json\<close> is \<open>response.json()\<close>; \<open>None\<close> means that the promise rejects (the body
  cannot be read, or it is not JSON).
\<close>

record fetchResponse =
  status :: nat
  body_text :: "string option"
  body_json :: "geminiBody option"

datatype fetchResult = Rejects | Resolves fetchResponse

definition ok :: "fetchResponse \<Rightarrow> bool" where
  "ok r = (200 \<le> status r \<and> status r \<le> 299)"

text \<open>
  The collaborators of a request: the provider's answer to the \<open>k\<close>-th outbound call of the
  request, the \<open>error\<close> (if any) in what a datastore insert resolves to, the clock read for
  the \<open>k\<close>-th row, and the text of a number that is not an integer.
\<close>

record runtime =
  fetch :: "nat \<Rightarrow> geminiRequest \<Rightarrow> fetchResult"
  db_insert :: "generationRow list \<Rightarrow> string option"
  clock :: "nat \<Rightarrow> string"
  number_text :: "rat \<Rightarrow> string"

subsection \<open>Replies\<close>

text \<open>An image entry \<open>{mimeType, data, scenario}\<close>; its fields carry the prefix \<open>part_\<close>.\<close>

record geminiImagePart =
  part_mimeType :: string
  part_data :: string
  part_scenario :: scenario

datatype replyBody =
    ErrorBody string
  | InvalidBody string "issue list"
  | ImagesBody "geminiImagePart list"
  | ScenariosBody string "scenario list"
  | ThreadBody string

record reply =
  http_status :: nat
  body :: replyBody

definition NextResponse_json :: "replyBody \<Rightarrow> nat \<Rightarrow> reply" where
  "NextResponse_json b st = \<lparr>http_status = st, body = b\<rparr>"

text \<open>A handler replies, or an exception raised outside its \<open>try\<close> block escapes.\<close>

datatype outcome = Replied reply | Escaped

section \<open>\<open>lib/supabase-server.ts\<close>\<close>

definition createClient :: "string \<Rightarrow> string \<Rightarrow> server \<Rightarrow> supabaseClient \<times> server" where
  "createClient url key srv =
     (let c = \<lparr>client_url = url, client_key = key, client_rank = length (constructed srv)\<rparr>
      in (c, srv\<lparr>constructed := constructed srv @ [c]\<rparr>))"

definition getSupabaseServerClient :: "env \<Rightarrow> server \<Rightarrow> supabaseClient option \<times> server" where
  "getSupabaseServerClient e srv =
     (case (SUPABASE_URL e, SUPABASE_SERVICE_ROLE_KEY e) of
        (Some url, Some key) \<Rightarrow>
          if url = [] \<or> key = [] then (None, srv)
          else (case cachedClient srv of
                  Some c \<Rightarrow> (Some c, srv)
                | None \<Rightarrow>
                    (let (c, srv') = createClient url key srv
                     in (Some c, srv'\<lparr>cachedClient := Some c\<rparr>)))
      | _ \<Rightarrow> (None, srv))"

section \<open>\<open>api/gemini/generate/route.ts\<close>\<close>

text \<open>
  The parsed payload. Its key \<open>scenarios\<close> is the field \<open>chosen\<close>, and the keys \<open>data\<close> and
  \<open>mimeType\<close> of the product image are \<open>image_data\<close> and \<open>image_mimeType\<close>.
\<close>

record productImage =
  image_data :: string
  image_mimeType :: string

record generatePayload =
  threadId :: "string option"
  productName :: "string option"
  productImage :: productImage
  chosen :: "scenario list"
  settings :: generationSettings

definition productImageSchema :: "json option \<Rightarrow> productImage parsed" where
  "productImageSchema v =
     (case v of
        Some (JObj kvs) \<Rightarrow>
          (case z_and (under ''data'' (z_string_min 10 (field kvs ''data'')))
                      (under ''mimeType'' (z_default z_string ''image/png'' (field kvs ''mimeType''))) of
             Inr (a, b) \<Rightarrow> Inr \<lparr>image_data = a, image_mimeType = b\<rparr>
           | Inl is \<Rightarrow> Inl is)
      | _ \<Rightarrow> Inl [[]])"

definition requestSchema :: "json option \<Rightarrow> generatePayload parsed" where
  "requestSchema v =
     (case v of
        Some (JObj kvs) \<Rightarrow>
          (case z_and (under ''threadId'' (z_optional z_string (field kvs ''threadId'')))
                (z_and (under ''productName'' (z_optional z_string (field kvs ''productName'')))
                (z_and (under ''productImage'' (productImageSchema (field kvs ''productImage'')))
                (z_and (under ''scenarios'' (z_array scenarioSchema 1 (field kvs ''scenarios'')))
                       (under ''settings'' (generationSettingsSchema (field kvs ''settings'')))))) of
             Inr (a, b, c, d, e) \<Rightarrow>
               Inr \<lparr>threadId = a, productName = b, productImage = c, chosen = d, settings = e\<rparr>
           | Inl is \<Rightarrow> Inl is)
      | _ \<Rightarrow> Inl [[]])"

definition DEFAULT_MODEL :: string where
  "DEFAULT_MODEL = ''gemini-2.5-flash-nano-banana''"

text \<open>
  \<open>process.env.GOOGLE_GEMINI_IMAGE_MODEL ?? DEFAULT_MODEL\<close>, and the key once the guard
  \<open>!apiKey\<close> has been passed.
\<close>

definition model_of :: "env \<Rightarrow> string" where
  "model_of e = (case GOOGLE_GEMINI_IMAGE_MODEL e of None \<Rightarrow> DEFAULT_MODEL | Some m \<Rightarrow> m)"

definition apiKey_of :: "env \<Rightarrow> string" where
  "apiKey_of e = (case GOOGLE_GEMINI_API_KEY e of None \<Rightarrow> [] | Some key \<Rightarrow> key)"

definition endpoint_of :: "string \<Rightarrow> string" where
  "endpoint_of model =
     ''https://generativelanguage.googleapis.com/v1beta/models/'' @ model @ '':generateContent''"

text \<open>
  \<open>json.candidates?.[0] ?? null\<close>, then
  \<open>candidate?.content?.parts?.find((item) => item.inlineData)\<close>.
\<close>

definition first_candidate :: "geminiBody \<Rightarrow> geminiCandidate option" where
  "first_candidate j = (case candidates j of None \<Rightarrow> None | Some [] \<Rightarrow> None | Some (c # _) \<Rightarrow> Some c)"

definition find_part :: "geminiCandidate option \<Rightarrow> geminiInlinePart option" where
  "find_part candidate =
     (case candidate of
        None \<Rightarrow> None
      | Some c \<Rightarrow>
          (case content c of
             None \<Rightarrow> None
           | Some ct \<Rightarrow>
               (case parts ct of
                  None \<Rightarrow> None
                | Some ps \<Rightarrow> find (\<lambda>item. inlineData item \<noteq> None) ps)))"

text \<open>
  The two optional chains of the guard
  \<open>!part?.inlineData?.data || !part?.inlineData?.mimeType\<close>.
\<close>

definition part_inline_data :: "geminiInlinePart option \<Rightarrow> string option" where
  "part_inline_data part =
     (case part of None \<Rightarrow> None
      | Some p \<Rightarrow> (case inlineData p of None \<Rightarrow> None | Some d \<Rightarrow> data d))"

definition part_inline_mimeType :: "geminiInlinePart option \<Rightarrow> string option" where
  "part_inline_mimeType part =
     (case part of None \<Rightarrow> None
      | Some p \<Rightarrow> (case inlineData p of None \<Rightarrow> None | Some d \<Rightarrow> mimeType d))"

text \<open>One turn of the loop after the request has been sent: from the provider's answer to the
  image entry, or to the exception thrown.\<close>

definition read_image :: "scenario \<Rightarrow> fetchResult \<Rightarrow> thrown + geminiImagePart" where
  "read_image sc res =
     (case res of
        Rejects \<Rightarrow> Inl FetchRejected
      | Resolves response \<Rightarrow>
          if \<not> ok response then
            (case body_text response of
               None \<Rightarrow> Inl BodyUnreadable
             | Some errorBody \<Rightarrow> Inl (GenerationFailed (status response) errorBody))
          else
            (case body_json response of
               None \<Rightarrow> Inl BodyUnreadable
             | Some j \<Rightarrow>
                 (let part = find_part (first_candidate j)
                  in if \<not> truthy (part_inline_data part) \<or> \<not> truthy (part_inline_mimeType part)
                     then Inl NoImageData
                     else (case (part_inline_mimeType part, part_inline_data part) of
                             (Some m, Some d) \<Rightarrow>
                               Inr \<lparr>part_mimeType = m, part_data = d, part_scenario = sc\<rparr>
                           | _ \<Rightarrow> Inl NoImageData))))"

definition request_for ::
    "runtime \<Rightarrow> string \<Rightarrow> string \<Rightarrow> generatePayload \<Rightarrow> scenario \<Rightarrow> geminiRequest" where
  "request_for rt url apiKey p sc =
     \<lparr>endpoint = url, x_goog_api_key = apiKey,
      prompt_text = buildPrompt (number_text rt) sc (productName p) (settings p),
      inline_mimeType = image_mimeType (productImage p),
      inline_data = image_data (productImage p)\<rparr>"

text \<open>The \<open>for\<close> loop over the scenarios; \<open>k\<close> counts the calls already made.\<close>

fun render_loop ::
    "runtime \<Rightarrow> string \<Rightarrow> string \<Rightarrow> generatePayload \<Rightarrow> nat \<Rightarrow> scenario list
       \<Rightarrow> geminiImagePart list \<Rightarrow> server \<Rightarrow> (thrown + geminiImagePart list) \<times> server" where
  "render_loop rt url apiKey p k [] results srv = (Inr results, srv)"
| "render_loop rt url apiKey p k (sc # rest) results srv =
     (let req = request_for rt url apiKey p sc;
          srv' = srv\<lparr>fetched := fetched srv @ [req]\<rparr>
      in case read_image sc (fetch rt k req) of
           Inl err \<Rightarrow> (Inl err, srv')
         | Inr entry \<Rightarrow> render_loop rt url apiKey p (Suc k) rest (results @ [entry]) srv')"

text \<open>The provider's answer to the call made for the \<open>k\<close>-th scenario of a payload.\<close>

definition answer :: "runtime \<Rightarrow> env \<Rightarrow> generatePayload \<Rightarrow> nat \<Rightarrow> fetchResult" where
  "answer rt e p k =
     fetch rt k (request_for rt (endpoint_of (model_of e)) (apiKey_of e) p (chosen p ! k))"

definition row_of :: "runtime \<Rightarrow> generatePayload \<Rightarrow> nat \<times> geminiImagePart \<Rightarrow> generationRow" where
  "row_of rt p ir =
     \<lparr>thread_id = threadId p,
      scenario_id = id_s (part_scenario (snd ir)),
      scenario_title = title (part_scenario (snd ir)),
      scenario_summary = summary (part_scenario (snd ir)),
      row_settings = settings p,
      created_at = clock rt (fst ir)\<rparr>"

text \<open>The metadata insert that follows the loop.\<close>

definition persist :: "runtime \<Rightarrow> env \<Rightarrow> generatePayload \<Rightarrow> geminiImagePart list \<Rightarrow> server \<Rightarrow> server" where
  "persist rt e p results srv =
     (case getSupabaseServerClient e srv of
        (None, srv1) \<Rightarrow> srv1
      | (Some supabase, srv1) \<Rightarrow>
          (let inserts = map (row_of rt p) (enumerate 0 results);
               srv2 = srv1\<lparr>inserted := inserted srv1 @ [inserts]\<rparr>
           in case db_insert rt inserts of
                None \<Rightarrow> srv2
              | Some error \<Rightarrow>
                  srv2\<lparr>console := console srv2
                         @ [ConsoleWarn ''Failed to persist generation metadata in Supabase'' error]\<rparr>))"

definition generate_POST :: "runtime \<Rightarrow> env \<Rightarrow> json option \<Rightarrow> server \<Rightarrow> outcome \<times> server" where
  "generate_POST rt e request srv =
     (if \<not> truthy (GOOGLE_GEMINI_API_KEY e) then
        (Replied (NextResponse_json
                    (ErrorBody ''Missing GOOGLE_GEMINI_API_KEY environment variable.'') 500), srv)
      else
        (case request of
           None \<Rightarrow> (Escaped, srv)
         | Some j \<Rightarrow>
             (case requestSchema (Some j) of
                Inl is \<Rightarrow>
                  (Replied (NextResponse_json (InvalidBody ''Invalid generate payload'' is) 400), srv)
              | Inr p \<Rightarrow>
                  (case render_loop rt (endpoint_of (model_of e)) (apiKey_of e) p 0 (chosen p) [] srv of
                     (Inr results, srv1) \<Rightarrow>
                       (Replied (NextResponse_json (ImagesBody results) 200),
                        persist rt e p results srv1)
                   | (Inl error, srv1) \<Rightarrow>
                       (Replied (NextResponse_json
                                   (ErrorBody ''Image generation failed. Please try again with a different concept.'')
                                   500),
                        srv1\<lparr>console := console srv1
                               @ [ConsoleError ''Gemini generation failed'' error]\<rparr>)))))"

section \<open>\<open>api/openai/scenarios/route.ts\<close>\<close>

text \<open>The parsed request; its fields carry the prefix \<open>rq_\<close>.\<close>

record scenarioRequest =
  rq_threadId :: string
  rq_audience :: string
  rq_productDetails :: string
  rq_productName :: "string option"
  rq_niche :: "string option"
  rq_tone :: "string option"
  rq_visualStyle :: "string option"
  rq_shots :: rat
  rq_focusOnProduct :: rat
  rq_additionalNotes :: "string list option"

definition scenarioRequestSchema :: "json option \<Rightarrow> scenarioRequest parsed" where
  "scenarioRequestSchema v =
     (case v of
        Some (JObj kvs) \<Rightarrow>
          (case z_and (under ''threadId'' (z_string (field kvs ''threadId'')))
                (z_and (under ''audience'' (z_string_min 1 (field kvs ''audience'')))
                (z_and (under ''productDetails'' (z_string_min 1 (field kvs ''productDetails'')))
                (z_and (under ''productName'' (z_optional z_string (field kvs ''productName'')))
                (z_and (under ''niche'' (z_optional z_string (field kvs ''niche'')))
                (z_and (under ''tone'' (z_optional z_string (field kvs ''tone'')))
                (z_and (under ''visualStyle'' (z_optional z_string (field kvs ''visualStyle'')))
                (z_and (under ''shots'' (z_default (z_number True 1 12) 6 (field kvs ''shots'')))
                (z_and (under ''focusOnProduct''
                          (z_default (z_number True 1 5) 3 (field kvs ''focusOnProduct'')))
                       (under ''additionalNotes''
                          (z_optional (z_array z_string 0) (field kvs ''additionalNotes''))))))))))) of
             Inr (a, b, c, d, e, f, g, h, i, j) \<Rightarrow>
               Inr \<lparr>rq_threadId = a, rq_audience = b, rq_productDetails = c, rq_productName = d,
                    rq_niche = e, rq_tone = f, rq_visualStyle = g, rq_shots = h,
                    rq_focusOnProduct = i, rq_additionalNotes = j\<rparr>
           | Inl is \<Rightarrow> Inl is)
      | _ \<Rightarrow> Inl [[]])"

subsection \<open>\<open>sanitizeResponse\<close>\<close>

text \<open>
  \<open>s.replace(/pat/g, "")\<close> for a pattern of literal characters: scan from the left, drop each
  match and go on after it. \<open>trim\<close> removes the white space and line terminators of
  ECMAScript at both ends; below 256 these are the code units listed.
\<close>

function remove_all :: "string \<Rightarrow> string \<Rightarrow> string" where
  "remove_all pat [] = []"
| "remove_all pat (c # cs) =
     (if pat \<noteq> [] \<and> starts_with (c # cs) pat
      then remove_all pat (drop (length pat) (c # cs))
      else c # remove_all pat cs)"
  by pat_completeness auto
termination
  by (relation "measure (\<lambda>(pat, s). length s)") (auto simp: neq_Nil_conv)

definition is_space :: "char \<Rightarrow> bool" where
  "is_space c = (c \<in> set [CHR 0x09, CHR 0x0A, CHR 0x0B, CHR 0x0C, CHR 0x0D, CHR 0x20, CHR 0xA0])"

definition trim :: "string \<Rightarrow> string" where
  "trim s = rev (dropWhile is_space (rev (dropWhile is_space s)))"

definition sanitizeResponse :: "string \<Rightarrow> string" where
  "sanitizeResponse raw = trim (remove_all ''```'' (remove_all ''```json'' raw))"

subsection \<open>The assistant provider\<close>

datatype contentPart = TextContent "string option" | OtherContent string

record threadMessage =
  role :: string
  msg_content :: "contentPart list"

text \<open>
  What the assistant provider's client and \<open>JSON.parse\<close> answer. \<open>threads_create\<close> is the
  id of the new thread, \<open>runs_createAndPoll\<close> the status of the run once polling has ended;
  \<open>messages_create\<close> tells whether the promise resolves; for the others \<open>None\<close> means
  that the call throws.
\<close>

record assistantApi =
  threads_create :: "string option"
  messages_create :: "string \<Rightarrow> string \<Rightarrow> bool"
  runs_createAndPoll :: "string \<Rightarrow> string \<Rightarrow> string \<Rightarrow> string option"
  messages_list :: "string \<Rightarrow> threadMessage list option"
  JSON_parse :: "string \<Rightarrow> json option"

definition orElse :: "string option \<Rightarrow> string \<Rightarrow> string" where
  "orElse v d = (case v of None \<Rightarrow> d | Some x \<Rightarrow> x)"

definition contextPrompt :: "runtime \<Rightarrow> scenarioRequest \<Rightarrow> string" where
  "contextPrompt rt rq =
     ''You are a world-class UGC strategist tasked with planning lifestyle photo shoots for an AI image generator. ''
       @ [CHR 0x0A, CHR 0x0A]
     @ ''Product name: '' @ orElse (rq_productName rq) ''Unknown'' @ [CHR 0x0A]
     @ ''Product niche: '' @ orElse (rq_niche rq) ''Not provided'' @ [CHR 0x0A]
     @ ''Audience: '' @ rq_audience rq @ [CHR 0x0A]
     @ ''Product details: '' @ rq_productDetails rq @ [CHR 0x0A]
     @ ''Desired vibe or tone: '' @ orElse (rq_tone rq) ''Not specified'' @ [CHR 0x0A]
     @ ''Visual style preference: '' @ orElse (rq_visualStyle rq) ''Not specified'' @ [CHR 0x0A]
     @ ''Shots requested: '' @ number_string (number_text rt) (rq_shots rq) @ [CHR 0x0A]
     @ ''Focus on product (1-5): '' @ number_string (number_text rt) (rq_focusOnProduct rq) @ [CHR 0x0A]
     @ ''Extra considerations: ''
       @ (case rq_additionalNotes rq of None \<Rightarrow> ''None'' | Some ns \<Rightarrow> join '', '' ns)
       @ [CHR 0x0A, CHR 0x0A]
     @ ''Produce exactly six distinct scenarios for capturing short-form UGC images. Each scenario must reference the product authentically, ''
     @ ''highlight the audience pain point, and include specific visual cues (camera angle, environment, lighting, props).''
     @ ''Return the answer as JSON that matches this TypeScript type strictly: {\"scenarios\": [{\"id\": string, \"title\": string, \"summary\": string, \"setting\"?: string, \"shotList\"?: string[], \"hook\"?: string}]}.''
     @ [CHR 0x0A]"

definition run_instructions :: string where
  "run_instructions =
     ''Respond only with valid JSON. Do not include markdown code fences. Focus on high-converting, platform-ready UGC concepts.''"

text \<open>The first message of the assistant, and its first part of type \<open>text\<close>.\<close>

definition is_text :: "contentPart \<Rightarrow> bool" where
  "is_text part = (case part of TextContent _ \<Rightarrow> True | OtherContent _ \<Rightarrow> False)"

definition find_text_part :: "threadMessage list \<Rightarrow> contentPart option" where
  "find_text_part msgs =
     (case find (\<lambda>message. role message = ''assistant'') msgs of
        None \<Rightarrow> None
      | Some assistantMessage \<Rightarrow> find is_text (msg_content assistantMessage))"

text \<open>Lines 112 to 114: sanitise, \<open>JSON.parse\<close>, \<open>scenarioResponseSchema.parse\<close>.\<close>

definition parse_text :: "(string \<Rightarrow> json option) \<Rightarrow> string \<Rightarrow> thrown + scenarioResponse" where
  "parse_text parse raw =
     (case parse (sanitizeResponse raw) of
        None \<Rightarrow> Inl SyntaxError
      | Some j \<Rightarrow>
          (case scenarioResponseSchema (Some j) of
             Inl is \<Rightarrow> Inl (ZodError is)
           | Inr parsedResponse \<Rightarrow> Inr parsedResponse))"

definition read_scenarios :: "(string \<Rightarrow> json option) \<Rightarrow> threadMessage list \<Rightarrow> thrown + scenarioResponse" where
  "read_scenarios parse msgs =
     (case find_text_part msgs of
        Some (TextContent v) \<Rightarrow> parse_text parse (orElse v [])
      | _ \<Rightarrow> Inl NoTextContent)"

definition ideate ::
    "runtime \<Rightarrow> assistantApi \<Rightarrow> string \<Rightarrow> scenarioRequest \<Rightarrow> server
       \<Rightarrow> (thrown + scenarioResponse) \<times> server" where
  "ideate rt api assistantId rq srv =
     (let tid = rq_threadId rq;
          text = contextPrompt rt rq;
          srv1 = srv\<lparr>assistant_calls := assistant_calls srv @ [MessagesCreate tid text]\<rparr>
      in if \<not> messages_create api tid text then (Inl AssistantRejected, srv1)
         else
           (let srv2 = srv1\<lparr>assistant_calls := assistant_calls srv1
                              @ [RunsCreateAndPoll tid assistantId run_instructions]\<rparr>
            in case runs_createAndPoll api tid assistantId run_instructions of
                 None \<Rightarrow> (Inl AssistantRejected, srv2)
               | Some run_status \<Rightarrow>
                   if run_status \<noteq> ''completed'' then (Inl (RunNotCompleted run_status), srv2)
                   else
                     (let srv3 = srv2\<lparr>assistant_calls := assistant_calls srv2 @ [MessagesList tid]\<rparr>
                      in case messages_list api tid of
                           None \<Rightarrow> (Inl AssistantRejected, srv3)
                         | Some msgs \<Rightarrow> (read_scenarios (JSON_parse api) msgs, srv3))))"

definition scenarios_POST ::
    "runtime \<Rightarrow> assistantApi \<Rightarrow> env \<Rightarrow> json option \<Rightarrow> server \<Rightarrow> outcome \<times> server" where
  "scenarios_POST rt api e request srv =
     (if \<not> truthy (OPENAI_API_KEY e) \<or> \<not> truthy (OPENAI_ASSISTANT_ID e) then
        (Replied (NextResponse_json
                    (ErrorBody ''Missing OPENAI_API_KEY or OPENAI_ASSISTANT_ID. Update your environment variables to enable scenario ideation.'')
                    500), srv)
      else
        (case request of
           None \<Rightarrow> (Escaped, srv)
         | Some j \<Rightarrow>
             (case scenarioRequestSchema (Some j) of
                Inl is \<Rightarrow>
                  (Replied (NextResponse_json (InvalidBody ''Invalid scenario request payload'' is) 400),
                   srv)
              | Inr rq \<Rightarrow>
                  (case ideate rt api (orElse (OPENAI_ASSISTANT_ID e) []) rq srv of
                     (Inr parsedResponse, srv1) \<Rightarrow>
                       (Replied (NextResponse_json
                                   (ScenariosBody (rq_threadId rq) (scenarios parsedResponse)) 200),
                        srv1)
                   | (Inl error, srv1) \<Rightarrow>
                       (Replied (NextResponse_json
                                   (ErrorBody ''Unable to generate scenarios at this time. Please refine your brief and try again.'')
                                   500),
                        srv1\<lparr>console := console srv1
                               @ [ConsoleError ''Failed to generate scenarios'' error]\<rparr>)))))"

section \<open>\<open>api/openai/thread/route.ts\<close>\<close>


section \<open>The life of the server process\<close>

text \<open>
  The process starts with no cached client and an empty trace. Afterwards its state changes
  only through the accessor and the three route handlers.
\<close>

definition boot :: server where
  "boot = \<lparr>cachedClient = None, constructed = [], fetched = [], inserted = [],
           assistant_calls = [], console = []\<rparr>"




section \<open>The JSON document of a typed value\<close>

text \<open>
  What \<open>JSON.parse(JSON.stringify(x))\<close> is for a scenario and for a batch of scenarios: the
  keys of the schema in order, an absent optional key left out.
\<close>

definition scenario_json :: "scenario \<Rightarrow> json" where
  "scenario_json sc =
     JObj ([(''id'', JStr (id_s sc)), (''title'', JStr (title sc)), (''summary'', JStr (summary sc))]
           @ (case setting sc of None \<Rightarrow> [] | Some s \<Rightarrow> [(''setting'', JStr s)])
           @ (case shotList sc of None \<Rightarrow> [] | Some xs \<Rightarrow> [(''shotList'', JArr (map JStr xs))])
           @ (case hook sc of None \<Rightarrow> [] | Some h \<Rightarrow> [(''hook'', JStr h)]))"

definition batch_json :: "scenarioResponse \<Rightarrow> json" where
  "batch_json b = JObj [(''scenarios'', JArr (map scenario_json (scenarios b)))]"

section \<open>Example inputs\<close>

definition example_scenario :: scenario where
  "example_scenario =
     \<lparr>id_s = ''s1'', title = ''Morning run'', summary = ''A runner laces up'',
      setting = Some ''City park'', shotList = Some [''close-up'', ''wide''], hook = None\<rparr>"

definition example_settings :: generationSettings where
  "example_settings =
     \<lparr>focusOnProduct = 5, shots = 6, visualStyle = ''Natural'', tone = ''Cinematic'',
      orientation = ''Square (1:1)'', quality = ''Standard'', addMotion = Some True,
      retouchProduct = Some True, includeCaptions = Some False\<rparr>"

definition example_env :: env where
  "example_env =
     \<lparr>GOOGLE_GEMINI_API_KEY = Some ''g-key'', GOOGLE_GEMINI_IMAGE_MODEL = None,
      SUPABASE_URL = Some ''https://db.example'', SUPABASE_SERVICE_ROLE_KEY = Some ''s-key'',
      OPENAI_API_KEY = Some ''o-key'', OPENAI_ASSISTANT_ID = Some ''asst_1''\<rparr>"

definition second_scenario :: scenario where
  "second_scenario =
     \<lparr>id_s = ''s2'', title = ''Desk break'', summary = ''A sip between calls'',
      setting = None, shotList = None, hook = Some ''Stay sharp''\<rparr>"

definition example_payload :: generatePayload where
  "example_payload =
     \<lparr>threadId = Some ''thread_1'', productName = Some ''Aero bottle'',
      productImage = \<lparr>image_data = ''iVBORw0KGgo='', image_mimeType = ''image/png''\<rparr>,
      chosen = [example_scenario, second_scenario], settings = example_settings\<rparr>"

definition example_request :: json where
  "example_request =
     JObj [(''threadId'', JStr ''thread_1''),
           (''productName'', JStr ''Aero bottle''),
           (''scenarios'',
              JArr [JObj [(''id'', JStr ''s1''), (''title'', JStr ''Morning run''),
                          (''summary'', JStr ''A runner laces up''), (''setting'', JStr ''City park''),
                          (''shotList'', JArr [JStr ''close-up'', JStr ''wide''])],
                    JObj [(''id'', JStr ''s2''), (''title'', JStr ''Desk break''),
                          (''summary'', JStr ''A sip between calls''), (''hook'', JStr ''Stay sharp'')]]),
           (''settings'',
              JObj [(''focusOnProduct'', JNum 5), (''shots'', JNum 6), (''visualStyle'', JStr ''Natural''),
                    (''tone'', JStr ''Cinematic''), (''orientation'', JStr ''Square (1:1)''),
                    (''quality'', JStr ''Standard''), (''addMotion'', JBool True),
                    (''retouchProduct'', JBool True), (''includeCaptions'', JBool False)]),
           (''productImage'', JObj [(''data'', JStr ''iVBORw0KGgo='')])]"

definition image_body :: geminiBody where
  "image_body =
     \<lparr>candidates = Some [\<lparr>content = Some \<lparr>parts = Some
        [\<lparr>inlineData = None\<rparr>,
         \<lparr>inlineData = Some \<lparr>data = Some ''UE5HIGJ5dGVz'', mimeType = Some ''image/png''\<rparr>\<rparr>]\<rparr>\<rparr>]\<rparr>"

definition image_response :: fetchResponse where
  "image_response = \<lparr>status = 200, body_text = None, body_json = Some image_body\<rparr>"

definition example_rt :: runtime where
  "example_rt =
     \<lparr>fetch = (\<lambda>k req. Resolves image_response), db_insert = (\<lambda>rows. None),
      clock = (\<lambda>k. ''2025-01-01T00:00:00.000Z''), number_text = (\<lambda>q. [])\<rparr>"

definition quota_response :: fetchResponse where
  "quota_response = \<lparr>status = 500, body_text = Some ''quota exceeded'', body_json = None\<rparr>"

definition second_call_fails :: runtime where
  "second_call_fails =
     example_rt\<lparr>fetch := (\<lambda>k req. if k = 1 then Resolves quota_response else Resolves image_response)\<rparr>"

definition unset_env :: env where
  "unset_env = example_env\<lparr>GOOGLE_GEMINI_API_KEY := None\<rparr>"

definition partial_part :: geminiInlinePart where
  "partial_part = \<lparr>inlineData = Some \<lparr>data = None, mimeType = Some ''image/png''\<rparr>\<rparr>"

definition complete_part :: geminiInlinePart where
  "complete_part = \<lparr>inlineData = Some \<lparr>data = Some ''UE5HIGJ5dGVz'', mimeType = Some ''image/png''\<rparr>\<rparr>"

definition text_part :: geminiInlinePart where
  "text_part = \<lparr>inlineData = None\<rparr>"

definition partial_first_body :: geminiBody where
  "partial_first_body =
     \<lparr>candidates = Some [\<lparr>content = Some \<lparr>parts = Some [text_part, partial_part, complete_part]\<rparr>\<rparr>]\<rparr>"

definition partial_first :: runtime where
  "partial_first =
     example_rt\<lparr>fetch := (\<lambda>k req. Resolves \<lparr>status = 200, body_text = None,
                                               body_json = Some partial_first_body\<rparr>)\<rparr>"




definition numbered :: "string \<Rightarrow> scenario" where
  "numbered n =
     \<lparr>id_s = ''scn-'' @ n, title = ''Concept '' @ n, summary = ''Summary '' @ n,
      setting = Some ''Kitchen'', shotList = Some [''wide'', ''detail''], hook = None\<rparr>"

definition six_batch :: scenarioResponse where
  "six_batch =
     \<lparr>scenarios = [numbered ''1'', numbered ''2'', numbered ''3'', numbered ''4'', numbered ''5'',
                   numbered ''6'']\<rparr>"

definition two_batch :: scenarioResponse where
  "two_batch = \<lparr>scenarios = [numbered ''1'', numbered ''2'']\<rparr>"

definition two_text :: string where
  "two_text =
     ''{\"scenarios\":[{\"id\":\"scn-1\",\"title\":\"Concept 1\",\"summary\":\"Summary 1\",\"setting\":\"Kitchen\",\"shotList\":[\"wide\",\"detail\"]},''
     @ ''{\"id\":\"scn-2\",\"title\":\"Concept 2\",\"summary\":\"Summary 2\",\"setting\":\"Kitchen\",\"shotList\":[\"wide\",\"detail\"]}]}''"

text \<open>A stand-in for \<open>JSON.parse\<close> that reads the one document it is given.\<close>

definition reads :: "string \<Rightarrow> json \<Rightarrow> string \<Rightarrow> json option" where
  "reads doc j s = (if s = doc then Some j else None)"

definition example_api :: assistantApi where
  "example_api =
     \<lparr>threads_create = Some ''thread_1'',
      messages_create = (\<lambda>thread text. True),
      runs_createAndPoll = (\<lambda>thread assistant instructions. Some ''completed''),
      messages_list = (\<lambda>thread. Some [\<lparr>role = ''user'', msg_content = [TextContent (Some ''brief'')]\<rparr>,
                                       \<lparr>role = ''assistant'',
                                        msg_content = [OtherContent ''image_file'',
                                                       TextContent (Some (''```json'' @ two_text @ ''```''))]\<rparr>]),
      JSON_parse = reads two_text (batch_json two_batch)\<rparr>"

definition example_brief :: "(string \<times> json) list" where
  "example_brief =
     [(''threadId'', JStr ''thread_1''), (''audience'', JStr ''runners''),
      (''productDetails'', JStr ''insulated steel bottle'')]"

definition example_rq :: scenarioRequest where
  "example_rq =
     \<lparr>rq_threadId = ''thread_1'', rq_audience = ''runners'',
      rq_productDetails = ''insulated steel bottle'', rq_productName = None, rq_niche = None,
      rq_tone = None, rq_visualStyle = None, rq_shots = 6, rq_focusOnProduct = 4,
      rq_additionalNotes = None\<rparr>"

section \<open>Properties of the string primitives\<close>

lemma starts_with_append: "starts_with (p @ s) p"
  by (induction p) auto

lemma includes_suffix: "includes_str s pat \<Longrightarrow> includes_str (a @ s) pat"
  by (induction a) auto

lemma includes_middle: "includes_str (a @ pat @ b) pat"
proof -
  have "includes_str (pat @ b) pat"
    by (cases "pat @ b") (auto simp: starts_with_append[of pat b, simplified] dest: sym)
  then show ?thesis by (rule includes_suffix)
qed

lemma join_member: "x \<in> set xs \<Longrightarrow> \<exists>a b. join sep xs = a @ x @ b"
proof (induction sep xs rule: join.induct)
  case (1 sep)
  then show ?case by simp
next
  case (2 sep y)
  then have "join sep [y] = [] @ x @ []" by simp
  then show ?case by blast
next
  case (3 sep y z zs)
  show ?case
  proof (cases "x = y")
    case True
    then have "join sep (y # z # zs) = [] @ x @ (sep @ join sep (z # zs))" by simp
    then show ?thesis by blast
  next
    case False
    with 3 obtain a b where "join sep (z # zs) = a @ x @ b" by auto
    then have "join sep (y # z # zs) = (y @ sep @ a) @ x @ b" by simp
    then show ?thesis by blast
  qed
qed

lemma includes_join: "x \<in> set xs \<Longrightarrow> includes_str (h @ join sep xs) x"
proof -
  assume "x \<in> set xs"
  then obtain a b where "join sep xs = a @ x @ b" using join_member by blast
  then have "h @ join sep xs = (h @ a) @ x @ b" by simp
  then show ?thesis using includes_middle[of "h @ a" x b] by simp
qed

lemma number_string_five: "number_string fmt 5 = ''5''"
  by (simp add: number_string_def is_integer_def int_string_def digit_char_def)

lemma includes_join0: "x \<in> set xs \<Longrightarrow> includes_str (join sep xs) x"
  using includes_join[of x xs "[]" sep] by simp

section \<open>The prompt of the image route\<close>

text \<open>
  Claim C5. For every scenario and product name, the prompt that \<open>buildPrompt\<close> makes from
  settings with focus level 5, tone \<open>Cinematic\<close> and the motion toggle on contains the three
  texts \<open>Focus level (1-5): 5\<close>, \<open>Tone: Cinematic\<close> and
  \<open>Add subtle motion-friendly composition cues\<close>.
\<close>

theorem buildPrompt_mentions_settings:
  assumes "focusOnProduct st = 5" and "tone st = ''Cinematic''" and "addMotion st = Some True"
  shows "includes_str (buildPrompt fmt sc pn st) ''Focus level (1-5): 5''
       \<and> includes_str (buildPrompt fmt sc pn st) ''Tone: Cinematic''
       \<and> includes_str (buildPrompt fmt sc pn st) ''Add subtle motion-friendly composition cues''"
proof -
  have mem: "''Focus level (1-5): 5'' \<in> set (prompt_notes fmt st)"
       "''Tone: Cinematic'' \<in> set (prompt_notes fmt st)"
       "''Add subtle motion-friendly composition cues'' \<in> set (prompt_notes fmt st)"
    using assms by (simp_all add: prompt_notes_def number_string_five)
  have "includes_str (buildPrompt fmt sc pn st) x" if "x \<in> set (prompt_notes fmt st)" for x
    unfolding buildPrompt_def by (intro includes_suffix includes_join0 that)
  with mem show ?thesis by blast
qed

theorem buildPrompt_mentions_settings_witness:
  "focusOnProduct example_settings = 5 \<and> tone example_settings = ''Cinematic''
   \<and> addMotion example_settings = Some True
   \<and> includes_str (buildPrompt (\<lambda>_. []) example_scenario (Some ''Aero bottle'') example_settings)
        ''Focus level (1-5): 5''
   \<and> includes_str (buildPrompt (\<lambda>_. []) example_scenario (Some ''Aero bottle'') example_settings)
        ''Tone: Cinematic''
   \<and> includes_str (buildPrompt (\<lambda>_. []) example_scenario (Some ''Aero bottle'') example_settings)
        ''Add subtle motion-friendly composition cues''"
  using buildPrompt_mentions_settings[of example_settings "\<lambda>_. []" example_scenario "Some ''Aero bottle''"]
  by (simp add: example_settings_def)

section \<open>The loop of the image route\<close>

lemma read_image_scenario: "read_image sc res = Inr entry \<Longrightarrow> part_scenario entry = sc"
  by (auto simp: read_image_def Let_def split: fetchResult.splits if_splits option.splits)

lemma read_image_not_ok: "\<not> ok r \<Longrightarrow> \<exists>err. read_image sc (Resolves r) = Inl err"
  by (simp add: read_image_def split: option.splits)

lemma render_loop_step_ok:
  "read_image sc (fetch rt n (request_for rt url key p sc)) = Inr entry \<Longrightarrow>
   render_loop rt url key p n (sc # rest) results srv
     = render_loop rt url key p (Suc n) rest (results @ [entry])
         (srv\<lparr>fetched := fetched srv @ [request_for rt url key p sc]\<rparr>)"
  by (simp add: Let_def)

lemma render_loop_step_fail:
  "read_image sc (fetch rt n (request_for rt url key p sc)) = Inl err \<Longrightarrow>
   render_loop rt url key p n (sc # rest) results srv
     = (Inl err, srv\<lparr>fetched := fetched srv @ [request_for rt url key p sc]\<rparr>)"
  by (simp add: Let_def)


lemma render_loop_first_failure:
  "i < length scs \<Longrightarrow>
   (\<forall>k < i. \<exists>entry. read_image (scs ! k) (fetch rt (n + k) (request_for rt url key p (scs ! k))) = Inr entry) \<Longrightarrow>
   read_image (scs ! i) (fetch rt (n + i) (request_for rt url key p (scs ! i))) = Inl err \<Longrightarrow>
   render_loop rt url key p n scs results srv
     = (Inl err, srv\<lparr>fetched := fetched srv @ map (request_for rt url key p) (take (Suc i) scs)\<rparr>)"
proof (induction scs arbitrary: i n results srv)
  case Nil
  then show ?case by simp
next
  case (Cons sc rest)
  show ?case
  proof (cases i)
    case 0
    with Cons.prems(3) show ?thesis by (simp add: render_loop_step_fail)
  next
    case (Suc m)
    from Cons.prems(2)[rule_format, of 0] Suc obtain entry
      where e: "read_image sc (fetch rt n (request_for rt url key p sc)) = Inr entry" by auto
    have a: "m < length rest" using Cons.prems(1) Suc by simp
    have b: "\<forall>k < m. \<exists>entry. read_image (rest ! k) (fetch rt (Suc n + k) (request_for rt url key p (rest ! k))) = Inr entry"
    proof (intro allI impI)
      fix k assume "k < m"
      then show "\<exists>entry. read_image (rest ! k) (fetch rt (Suc n + k) (request_for rt url key p (rest ! k))) = Inr entry"
        using Cons.prems(2)[rule_format, of "Suc k"] Suc by simp
    qed
    have c: "read_image (rest ! m) (fetch rt (Suc n + m) (request_for rt url key p (rest ! m))) = Inl err"
      using Cons.prems(3) Suc by simp
    show ?thesis
      unfolding render_loop_step_ok[OF e]
        Cons.IH[OF a b c, of "results @ [entry]" "srv\<lparr>fetched := fetched srv @ [request_for rt url key p sc]\<rparr>"]
      using Suc by simp
  qed
qed

lemma render_loop_some_failure:
  assumes "\<exists>i < length scs. \<exists>err. read_image (scs ! i) (fetch rt (n + i) (request_for rt url key p (scs ! i))) = Inl err"
  shows "\<exists>err m. render_loop rt url key p n scs results srv
     = (Inl err, srv\<lparr>fetched := fetched srv @ map (request_for rt url key p) (take m scs)\<rparr>)"
proof -
  define bad where "bad i \<longleftrightarrow> i < length scs \<and> (\<exists>err. read_image (scs ! i) (fetch rt (n + i) (request_for rt url key p (scs ! i))) = Inl err)" for i
  have ex: "\<exists>i. bad i" using assms unfolding bad_def by blast
  define i where "i = (LEAST i. bad i)"
  have bad: "bad i" unfolding i_def using ex by (rule LeastI_ex)
  then obtain err where err: "read_image (scs ! i) (fetch rt (n + i) (request_for rt url key p (scs ! i))) = Inl err"
    and len: "i < length scs" unfolding bad_def by blast
  have "\<forall>k < i. \<exists>entry. read_image (scs ! k) (fetch rt (n + k) (request_for rt url key p (scs ! k))) = Inr entry"
  proof (intro allI impI)
    fix k assume k: "k < i"
    then have "\<not> bad k" unfolding i_def by (rule not_less_Least)
    moreover have "k < length scs" using k len by simp
    ultimately show "\<exists>entry. read_image (scs ! k) (fetch rt (n + k) (request_for rt url key p (scs ! k))) = Inr entry"
      unfolding bad_def
      by (cases "read_image (scs ! k) (fetch rt (n + k) (request_for rt url key p (scs ! k)))") auto
  qed
  from render_loop_first_failure[OF len this err] show ?thesis by blast
qed

section \<open>Validation and the reply of the image route\<close>

lemma example_request_valid: "requestSchema (Some example_request) = Inr example_payload"
  by code_simp


lemma z_and_Inl: "z_and ra rb = Inl iss \<longleftrightarrow> (isl ra \<or> isl rb) \<and> iss = issues_of ra @ issues_of rb"
  by (cases ra; cases rb) (auto simp: z_and_def issues_of_def)

lemma z_and_values: "z_and (Inr a) (Inr b) = Inr (a, b)"
  by (simp add: z_and_def)


lemma under_value: "under k (Inr v) = Inr v"
  by (simp add: under_def)




lemma generate_POST_valid:
  "truthy (GOOGLE_GEMINI_API_KEY e) \<Longrightarrow> requestSchema (Some j) = Inr p \<Longrightarrow>
   generate_POST rt e (Some j) srv =
     (case render_loop rt (endpoint_of (model_of e)) (apiKey_of e) p 0 (chosen p) [] srv of
        (Inr results, srv1) \<Rightarrow>
          (Replied (NextResponse_json (ImagesBody results) 200), persist rt e p results srv1)
      | (Inl error, srv1) \<Rightarrow>
          (Replied (NextResponse_json
                      (ErrorBody ''Image generation failed. Please try again with a different concept.'') 500),
           srv1\<lparr>console := console srv1 @ [ConsoleError ''Gemini generation failed'' error]\<rparr>))"
  by (simp add: generate_POST_def)

lemma render_loop_results:
  "render_loop rt url key p n scs results srv = (Inr out, srv') \<Longrightarrow>
   \<exists>new. out = results @ new \<and> map part_scenario new = scs"
proof (induction scs arbitrary: n results srv)
  case Nil
  then have "out = results" by simp
  then show ?case by simp
next
  case (Cons sc rest)
  show ?case
  proof (cases "read_image sc (fetch rt n (request_for rt url key p sc))")
    case (Inl err)
    from Cons.prems have "(Inl err, srv\<lparr>fetched := fetched srv @ [request_for rt url key p sc]\<rparr>) = (Inr out, srv')"
      unfolding render_loop_step_fail[OF Inl] .
    then show ?thesis by simp
  next
    case (Inr entry)
    from Cons.prems have "render_loop rt url key p (Suc n) rest (results @ [entry])
        (srv\<lparr>fetched := fetched srv @ [request_for rt url key p sc]\<rparr>) = (Inr out, srv')"
      unfolding render_loop_step_ok[OF Inr] .
    from Cons.IH[OF this] obtain new where n: "out = (results @ [entry]) @ new" "map part_scenario new = rest"
      by blast
    have "out = results @ (entry # new)" using n(1) by simp
    moreover have "map part_scenario (entry # new) = sc # rest"
      using n(2) read_image_scenario[OF Inr] by simp
    ultimately show ?thesis by (intro exI[of _ "entry # new"] conjI)
  qed
qed

text \<open>Every reply that carries images carries one for each scenario of the request, in order.\<close>

lemma generate_images_shape:
  assumes "truthy (GOOGLE_GEMINI_API_KEY e)" and "requestSchema (Some j) = Inr p"
    and "generate_POST rt e (Some j) srv = (Replied \<lparr>http_status = st, body = ImagesBody images\<rparr>, srv')"
  shows "st = 200 \<and> map part_scenario images = chosen p"
proof -
  obtain r srv1 where l: "render_loop rt (endpoint_of (model_of e)) (apiKey_of e) p 0 (chosen p) [] srv = (r, srv1)"
    by (cases "render_loop rt (endpoint_of (model_of e)) (apiKey_of e) p 0 (chosen p) [] srv")
  show ?thesis
  proof (cases r)
    case (Inl err)
    have "generate_POST rt e (Some j) srv = (Replied \<lparr>http_status = 500,
             body = ErrorBody ''Image generation failed. Please try again with a different concept.''\<rparr>,
           srv1\<lparr>console := console srv1 @ [ConsoleError ''Gemini generation failed'' err]\<rparr>)"
      unfolding generate_POST_valid[OF assms(1,2)] l Inl by (simp add: NextResponse_json_def)
    with assms(3) show ?thesis by simp
  next
    case (Inr results)
    have "generate_POST rt e (Some j) srv
            = (Replied \<lparr>http_status = 200, body = ImagesBody results\<rparr>, persist rt e p results srv1)"
      unfolding generate_POST_valid[OF assms(1,2)] l Inr by (simp add: NextResponse_json_def)
    with assms(3) have "st = 200" "images = results" by simp_all
    moreover from render_loop_results[OF l[unfolded Inr]] have "map part_scenario results = chosen p"
      by simp
    ultimately show ?thesis by simp
  qed
qed




section \<open>The cached datastore client\<close>













section \<open>Failures of the image route\<close>


lemma generate_POST_failure:
  assumes key: "truthy (GOOGLE_GEMINI_API_KEY e)"
    and valid: "requestSchema (Some j) = Inr p"
    and bad: "\<exists>i < length (chosen p). \<exists>err. read_image (chosen p ! i) (answer rt e p i) = Inl err"
  shows "\<exists>err m. generate_POST rt e (Some j) srv
           = (Replied \<lparr>http_status = 500,
                       body = ErrorBody ''Image generation failed. Please try again with a different concept.''\<rparr>,
              srv\<lparr>fetched := fetched srv
                      @ map (request_for rt (endpoint_of (model_of e)) (apiKey_of e) p) (take m (chosen p)),
                   console := console srv @ [ConsoleError ''Gemini generation failed'' err]\<rparr>)"
proof -
  have "\<exists>i < length (chosen p). \<exists>err.
          read_image (chosen p ! i)
            (fetch rt (0 + i) (request_for rt (endpoint_of (model_of e)) (apiKey_of e) p (chosen p ! i)))
          = Inl err"
    using bad by (simp add: answer_def)
  from render_loop_some_failure[OF this, of "[]" srv] obtain err m where
    "render_loop rt (endpoint_of (model_of e)) (apiKey_of e) p 0 (chosen p) [] srv
       = (Inl err, srv\<lparr>fetched := fetched srv
            @ map (request_for rt (endpoint_of (model_of e)) (apiKey_of e) p) (take m (chosen p))\<rparr>)"
    by blast
  then have "generate_POST rt e (Some j) srv
           = (Replied \<lparr>http_status = 500,
                       body = ErrorBody ''Image generation failed. Please try again with a different concept.''\<rparr>,
              srv\<lparr>fetched := fetched srv
                      @ map (request_for rt (endpoint_of (model_of e)) (apiKey_of e) p) (take m (chosen p)),
                   console := console srv @ [ConsoleError ''Gemini generation failed'' err]\<rparr>)"
    by (simp add: generate_POST_valid[OF key valid] NextResponse_json_def)
  then show ?thesis by blast
qed

text \<open>
  Claim C3. Take a valid image-generation request with the provider key configured. If the call
  for some scenario is answered with a non-success HTTP status, the endpoint replies 500 with
  the generic error message; the reply carries no images, also when earlier scenarios had been
  rendered; no datastore insert is made and no client is constructed. More generally, whatever
  the collaborators do, a datastore insert happens only if the turn of every scenario
  succeeded.
\<close>

theorem provider_failure_fails_batch:
  assumes key: "truthy (GOOGLE_GEMINI_API_KEY e)"
    and valid: "requestSchema (Some j) = Inr p"
    and k: "k < length (chosen p)"
    and r: "answer rt e p k = Resolves r"
    and status: "\<not> ok r"
  shows "(\<exists>srv'. generate_POST rt e (Some j) srv
            = (Replied \<lparr>http_status = 500,
                        body = ErrorBody ''Image generation failed. Please try again with a different concept.''\<rparr>,
               srv')
          \<and> inserted srv' = inserted srv
          \<and> constructed srv' = constructed srv
          \<and> cachedClient srv' = cachedClient srv)
       \<and> (\<forall>world. inserted (snd (generate_POST world e (Some j) srv)) \<noteq> inserted srv \<longrightarrow>
            (\<forall>i < length (chosen p). \<exists>entry.
               read_image (chosen p ! i) (answer world e p i) = Inr entry))"
proof (intro conjI allI impI)
  from read_image_not_ok[OF status, of "chosen p ! k"] r k
  have "\<exists>i < length (chosen p). \<exists>err. read_image (chosen p ! i) (answer rt e p i) = Inl err"
    by auto
  from generate_POST_failure[OF key valid this, of srv]
  show "\<exists>srv'. generate_POST rt e (Some j) srv
            = (Replied \<lparr>http_status = 500,
                        body = ErrorBody ''Image generation failed. Please try again with a different concept.''\<rparr>,
               srv')
          \<and> inserted srv' = inserted srv
          \<and> constructed srv' = constructed srv
          \<and> cachedClient srv' = cachedClient srv"
    by auto
next
  fix world i
  assume ins: "inserted (snd (generate_POST world e (Some j) srv)) \<noteq> inserted srv"
    and i: "i < length (chosen p)"
  show "\<exists>entry. read_image (chosen p ! i) (answer world e p i) = Inr entry"
  proof (cases "read_image (chosen p ! i) (answer world e p i)")
    case (Inr entry)
    then show ?thesis by blast
  next
    case (Inl err)
    with i have "\<exists>i < length (chosen p). \<exists>err. read_image (chosen p ! i) (answer world e p i) = Inl err"
      by blast
    from generate_POST_failure[OF key valid this, of srv] ins show ?thesis by auto
  qed
qed

text \<open>
  Claim C7. While \<open>GOOGLE_GEMINI_API_KEY\<close> is unset (or empty), the image-generation endpoint
  replies 500 with the configuration error, whatever the request, and the state of the server
  is unchanged: no request has been sent to the image provider.
\<close>

theorem missing_key_no_provider_call:
  assumes "\<not> truthy (GOOGLE_GEMINI_API_KEY e)"
  shows "generate_POST rt e request srv
           = (Replied \<lparr>http_status = 500,
                       body = ErrorBody ''Missing GOOGLE_GEMINI_API_KEY environment variable.''\<rparr>, srv)
         \<and> fetched (snd (generate_POST rt e request srv)) = fetched srv"
  using assms by (simp add: generate_POST_def NextResponse_json_def)

lemma find_first:
  "\<forall>q \<in> set pre. \<not> P q \<Longrightarrow> P x \<Longrightarrow> find P (pre @ x # post) = Some x"
  by (induction pre) auto

text \<open>
  Claim C10. The extractor selects the first part of the first candidate whose \<open>inlineData\<close>
  is present, also when the data or the MIME type of that part is missing (or empty). When the
  call for a scenario is answered so, and the calls before it succeeded, the whole batch fails:
  the reply is the generic 500, the error logged is the data-shape error, and nothing is
  inserted. The parts that follow the selected one are not looked at; they may hold a complete
  pair.
\<close>

theorem incomplete_first_inline_part_fails_batch:
  assumes key: "truthy (GOOGLE_GEMINI_API_KEY e)"
    and valid: "requestSchema (Some j) = Inr p"
    and k: "k < length (chosen p)"
    and earlier: "\<forall>i < k. \<exists>entry. read_image (chosen p ! i) (answer rt e p i) = Inr entry"
    and r: "answer rt e p k = Resolves r" "ok r" "body_json r = Some b"
    and b: "candidates b = Some (c # cs)" "content c = Some ct" "parts ct = Some (pre @ part # post)"
    and pre: "\<forall>q \<in> set pre. inlineData q = None"
    and part: "inlineData part = Some d" "\<not> truthy (data d) \<or> \<not> truthy (mimeType d)"
  shows "find_part (first_candidate b) = Some part
       \<and> (\<exists>srv'. generate_POST rt e (Some j) srv
            = (Replied \<lparr>http_status = 500,
                        body = ErrorBody ''Image generation failed. Please try again with a different concept.''\<rparr>,
               srv')
          \<and> console srv' = console srv @ [ConsoleError ''Gemini generation failed'' NoImageData]
          \<and> inserted srv' = inserted srv)"
proof -
  have f: "find_part (first_candidate b) = Some part"
    using b pre part(1) by (simp add: find_part_def first_candidate_def find_first)
  have t: "read_image (chosen p ! k) (answer rt e p k) = Inl NoImageData"
    using r f part by (auto simp: read_image_def part_inline_data_def part_inline_mimeType_def)
  have e': "\<forall>i < k. \<exists>entry. read_image (chosen p ! i)
              (fetch rt (0 + i) (request_for rt (endpoint_of (model_of e)) (apiKey_of e) p (chosen p ! i))) = Inr entry"
    using earlier k by (simp add: answer_def)
  have t': "read_image (chosen p ! k)
              (fetch rt (0 + k) (request_for rt (endpoint_of (model_of e)) (apiKey_of e) p (chosen p ! k))) = Inl NoImageData"
    using t by (simp add: answer_def)
  have "generate_POST rt e (Some j) srv
            = (Replied \<lparr>http_status = 500,
                        body = ErrorBody ''Image generation failed. Please try again with a different concept.''\<rparr>,
               srv\<lparr>fetched := fetched srv
                      @ map (request_for rt (endpoint_of (model_of e)) (apiKey_of e) p) (take (Suc k) (chosen p)),
                   console := console srv @ [ConsoleError ''Gemini generation failed'' NoImageData]\<rparr>)"
    by (simp add: generate_POST_valid[OF key valid] render_loop_first_failure[OF k e' t'] NextResponse_json_def)
  with f show ?thesis by simp
qed

section \<open>Persistence is best effort\<close>





section \<open>The image route on the example inputs\<close>

lemma example_key: "truthy (GOOGLE_GEMINI_API_KEY example_env)"
  by (simp add: example_env_def truthy_def)

theorem provider_failure_fails_batch_witness:
  "truthy (GOOGLE_GEMINI_API_KEY example_env)
   \<and> requestSchema (Some example_request) = Inr example_payload
   \<and> 1 < length (chosen example_payload)
   \<and> answer second_call_fails example_env example_payload 1 = Resolves quota_response
   \<and> \<not> ok quota_response
   \<and> (\<exists>srv'. generate_POST second_call_fails example_env (Some example_request) boot
            = (Replied \<lparr>http_status = 500,
                        body = ErrorBody ''Image generation failed. Please try again with a different concept.''\<rparr>,
               srv')
          \<and> inserted srv' = inserted boot
          \<and> constructed srv' = constructed boot
          \<and> cachedClient srv' = cachedClient boot)"
proof -
  have k: "1 < length (chosen example_payload)" by (simp add: example_payload_def)
  have r: "answer second_call_fails example_env example_payload 1 = Resolves quota_response"
    by (simp add: answer_def second_call_fails_def example_rt_def)
  have s: "\<not> ok quota_response" by (simp add: ok_def quota_response_def)
  show ?thesis
    using example_key example_request_valid k r s
      provider_failure_fails_batch[OF example_key example_request_valid k r s, of boot]
    by blast
qed

theorem missing_key_no_provider_call_witness:
  "\<not> truthy (GOOGLE_GEMINI_API_KEY unset_env)
   \<and> generate_POST example_rt unset_env (Some example_request) boot
        = (Replied \<lparr>http_status = 500,
                    body = ErrorBody ''Missing GOOGLE_GEMINI_API_KEY environment variable.''\<rparr>, boot)
   \<and> fetched (snd (generate_POST example_rt unset_env (Some example_request) boot)) = fetched boot"
proof -
  have k: "\<not> truthy (GOOGLE_GEMINI_API_KEY unset_env)"
    by (simp add: unset_env_def truthy_def)
  show ?thesis
    using k missing_key_no_provider_call[OF k, of example_rt "Some example_request" boot] by blast
qed

theorem incomplete_first_inline_part_fails_batch_witness:
  "truthy (GOOGLE_GEMINI_API_KEY example_env)
   \<and> requestSchema (Some example_request) = Inr example_payload
   \<and> 0 < length (chosen example_payload)
   \<and> inlineData text_part = None
   \<and> inlineData partial_part = Some \<lparr>data = None, mimeType = Some ''image/png''\<rparr>
   \<and> inlineData complete_part = Some \<lparr>data = Some ''UE5HIGJ5dGVz'', mimeType = Some ''image/png''\<rparr>
   \<and> find_part (first_candidate partial_first_body) = Some partial_part
   \<and> (\<exists>srv'. generate_POST partial_first example_env (Some example_request) boot
            = (Replied \<lparr>http_status = 500,
                        body = ErrorBody ''Image generation failed. Please try again with a different concept.''\<rparr>,
               srv')
          \<and> console srv' = console boot @ [ConsoleError ''Gemini generation failed'' NoImageData]
          \<and> inserted srv' = inserted boot)"
proof -
  have k: "0 < length (chosen example_payload)" by (simp add: example_payload_def)
  have earlier: "\<forall>i < 0. \<exists>entry. read_image (chosen example_payload ! i)
                    (answer partial_first example_env example_payload i) = Inr entry" by simp
  have r: "answer partial_first example_env example_payload 0
             = Resolves \<lparr>status = 200, body_text = None, body_json = Some partial_first_body\<rparr>"
          "ok \<lparr>status = 200, body_text = None, body_json = Some partial_first_body\<rparr>"
          "body_json \<lparr>status = 200, body_text = None, body_json = Some partial_first_body\<rparr>
             = Some partial_first_body"
    by (simp_all add: answer_def partial_first_def example_rt_def ok_def)
  have b: "candidates partial_first_body
             = Some (\<lparr>content = Some \<lparr>parts = Some [text_part, partial_part, complete_part]\<rparr>\<rparr> # [])"
          "content \<lparr>content = Some \<lparr>parts = Some [text_part, partial_part, complete_part]\<rparr>\<rparr>
             = Some \<lparr>parts = Some [text_part, partial_part, complete_part]\<rparr>"
          "parts \<lparr>parts = Some [text_part, partial_part, complete_part]\<rparr>
             = Some ([text_part] @ partial_part # [complete_part])"
    by (simp_all add: partial_first_body_def)
  have pre: "\<forall>q \<in> set [text_part]. inlineData q = None" by (simp add: text_part_def)
  have part: "inlineData partial_part = Some \<lparr>data = None, mimeType = Some ''image/png''\<rparr>"
             "\<not> truthy (data \<lparr>data = None, mimeType = Some ''image/png''\<rparr>)
              \<or> \<not> truthy (mimeType \<lparr>data = None, mimeType = Some ''image/png''\<rparr>)"
    by (simp_all add: partial_part_def truthy_def)
  have c: "inlineData complete_part = Some \<lparr>data = Some ''UE5HIGJ5dGVz'', mimeType = Some ''image/png''\<rparr>"
    by (simp add: complete_part_def)
  show ?thesis
    using example_key example_request_valid k pre part(1) c
      incomplete_first_inline_part_fails_batch[OF example_key example_request_valid k earlier r b pre part, of boot]
    by simp
qed



section \<open>The scenario-batch schema\<close>

lemma z_strings: "z_elements z_string i (map JStr xs) = Inr xs"
  by (induction xs arbitrary: i) (simp_all add: z_string_def under_value z_and_values)

lemma scenarioSchema_roundtrip: "scenarioSchema (Some (scenario_json sc)) = Inr sc"
  by (cases sc; cases "setting sc"; cases "shotList sc"; cases "hook sc")
     (simp_all add: scenarioSchema_def scenario_json_def field_def z_string_def z_optional_def
        z_array_def z_strings under_value z_and_values)

lemma z_scenarios: "z_elements scenarioSchema i (map scenario_json scs) = Inr scs"
  by (induction scs arbitrary: i) (simp_all add: scenarioSchema_roundtrip under_value z_and_values)

lemma scenarioResponseSchema_batch:
  "scenarioResponseSchema (Some (batch_json b))
     = (if scenarios b = [] then Inl [[''scenarios'']] else Inr b)"
  by (cases b) (simp add: scenarioResponseSchema_def batch_json_def field_def z_array_def z_scenarios under_def)

lemma scenarios_POST_valid:
  "truthy (OPENAI_API_KEY e) \<Longrightarrow> truthy (OPENAI_ASSISTANT_ID e) \<Longrightarrow>
   scenarioRequestSchema (Some j) = Inr rq \<Longrightarrow>
   scenarios_POST rt api e (Some j) srv =
     (case ideate rt api (orElse (OPENAI_ASSISTANT_ID e) []) rq srv of
        (Inr parsedResponse, srv1) \<Rightarrow>
          (Replied (NextResponse_json (ScenariosBody (rq_threadId rq) (scenarios parsedResponse)) 200), srv1)
      | (Inl error, srv1) \<Rightarrow>
          (Replied (NextResponse_json
                      (ErrorBody ''Unable to generate scenarios at this time. Please refine your brief and try again.'')
                      500),
           srv1\<lparr>console := console srv1 @ [ConsoleError ''Failed to generate scenarios'' error]\<rparr>))"
  by (simp add: scenarios_POST_def)

lemma ideate_completed:
  "messages_create api (rq_threadId rq) (contextPrompt rt rq) \<Longrightarrow>
   runs_createAndPoll api (rq_threadId rq) a run_instructions = Some ''completed'' \<Longrightarrow>
   messages_list api (rq_threadId rq) = Some msgs \<Longrightarrow>
   fst (ideate rt api a rq srv) = read_scenarios (JSON_parse api) msgs"
  by (simp add: ideate_def Let_def)

text \<open>
  Claim C8. The scenario-batch schema accepts the document of a batch exactly when the list of
  scenarios is not empty, and then returns the batch as it is; so a batch of six scenarios with
  distinct ids comes back unchanged. Nothing asks for six: when the assistant's text parses to
  the document of a batch with at least one scenario, the run having completed, the endpoint
  replies 200 with the scenarios of that batch, however few.
\<close>

theorem batch_schema_accepts_nonempty:
  "scenarioResponseSchema (Some (batch_json b))
     = (if scenarios b = [] then Inl [[''scenarios'']] else Inr b)
   \<and> (truthy (OPENAI_API_KEY e) \<and> truthy (OPENAI_ASSISTANT_ID e)
        \<and> scenarioRequestSchema (Some j) = Inr rq
        \<and> messages_create api (rq_threadId rq) (contextPrompt rt rq)
        \<and> runs_createAndPoll api (rq_threadId rq) (orElse (OPENAI_ASSISTANT_ID e) []) run_instructions
            = Some ''completed''
        \<and> messages_list api (rq_threadId rq) = Some msgs
        \<and> find_text_part msgs = Some (TextContent (Some raw))
        \<and> JSON_parse api (sanitizeResponse raw) = Some (batch_json b)
        \<and> scenarios b \<noteq> []
      \<longrightarrow> fst (scenarios_POST rt api e (Some j) srv)
            = Replied \<lparr>http_status = 200, body = ScenariosBody (rq_threadId rq) (scenarios b)\<rparr>)"
proof (intro conjI impI)
  show "scenarioResponseSchema (Some (batch_json b))
          = (if scenarios b = [] then Inl [[''scenarios'']] else Inr b)"
    by (rule scenarioResponseSchema_batch)
next
  assume a: "truthy (OPENAI_API_KEY e) \<and> truthy (OPENAI_ASSISTANT_ID e)
        \<and> scenarioRequestSchema (Some j) = Inr rq
        \<and> messages_create api (rq_threadId rq) (contextPrompt rt rq)
        \<and> runs_createAndPoll api (rq_threadId rq) (orElse (OPENAI_ASSISTANT_ID e) []) run_instructions
            = Some ''completed''
        \<and> messages_list api (rq_threadId rq) = Some msgs
        \<and> find_text_part msgs = Some (TextContent (Some raw))
        \<and> JSON_parse api (sanitizeResponse raw) = Some (batch_json b)
        \<and> scenarios b \<noteq> []"
  then have "read_scenarios (JSON_parse api) msgs = Inr b"
    by (simp add: read_scenarios_def parse_text_def orElse_def scenarioResponseSchema_batch)
  with a have "fst (ideate rt api (orElse (OPENAI_ASSISTANT_ID e) []) rq srv) = Inr b"
    by (simp add: ideate_completed)
  then obtain srv1 where "ideate rt api (orElse (OPENAI_ASSISTANT_ID e) []) rq srv = (Inr b, srv1)"
    by (cases "ideate rt api (orElse (OPENAI_ASSISTANT_ID e) []) rq srv") simp
  with a show "fst (scenarios_POST rt api e (Some j) srv)
            = Replied \<lparr>http_status = 200, body = ScenariosBody (rq_threadId rq) (scenarios b)\<rparr>"
    by (simp add: scenarios_POST_valid NextResponse_json_def)
qed

section \<open>Stripping code fences\<close>

lemma starts_with_iff: "starts_with s p \<longleftrightarrow> (\<exists>t. s = p @ t)"
  by (induction s p rule: starts_with.induct) auto

lemma remove_all_match:
  "p \<noteq> [] \<Longrightarrow> starts_with s p \<Longrightarrow> remove_all p s = remove_all p (drop (length p) s)"
  by (cases s) (auto simp: starts_with_iff)

lemma remove_all_skip:
  "\<not> starts_with (c # cs) p \<Longrightarrow> remove_all p (c # cs) = c # remove_all p cs"
  by simp

lemma remove_all_prefix: "p \<noteq> [] \<Longrightarrow> remove_all p (p @ s) = remove_all p s"
  using remove_all_match[of p "p @ s"] by (simp add: starts_with_iff)

lemma remove_all_absent: "p \<noteq> [] \<Longrightarrow> last p \<notin> set s \<Longrightarrow> remove_all p s = s"
proof (induction s)
  case Nil
  then show ?case by simp
next
  case (Cons c cs)
  have "\<not> starts_with (c # cs) p"
  proof
    assume "starts_with (c # cs) p"
    then obtain t where "c # cs = p @ t" by (auto simp: starts_with_iff)
    then have "last p \<in> set (c # cs)" using Cons.prems(1) by (metis last_in_set Un_iff set_append)
    with Cons.prems(2) show False by simp
  qed
  with Cons show ?case by simp
qed

text \<open>A match cannot reach into text that lacks the last character of the pattern.\<close>

lemma starts_with_foreign:
  assumes "p \<noteq> []" and "last p \<notin> set f" and "starts_with (s @ f) p"
  shows "starts_with s p"
proof -
  from assms(3) obtain t where "s @ f = p @ t" by (auto simp: starts_with_iff)
  then consider u where "s = p @ u" | u where "s @ u = p" "f = u @ t"
    by (auto simp: append_eq_append_conv2)
  then show ?thesis
  proof cases
    case 1
    then show ?thesis by (auto simp: starts_with_iff)
  next
    case 2
    show ?thesis
    proof (cases "u = []")
      case True
      with 2 show ?thesis by (auto simp: starts_with_iff)
    next
      case False
      then have "last p = last u" using 2(1) by (metis last_appendR)
      then have "last p \<in> set f" using False 2(2) by simp
      with assms(2) show ?thesis by simp
    qed
  qed
qed

lemma remove_all_foreign:
  assumes "p \<noteq> []" and "last p \<notin> set f"
  shows "remove_all p (s @ f) = remove_all p s @ f"
proof (induction s rule: measure_induct_rule[where f = length])
  case (less s)
  show ?case
  proof (cases s)
    case Nil
    then show ?thesis using remove_all_absent[OF assms] by simp
  next
    case (Cons c cs)
    show ?thesis
    proof (cases "starts_with s p")
      case True
      then have m: "starts_with (s @ f) p" and len: "length p \<le> length s"
        by (auto simp: starts_with_iff)
      have short: "length (drop (length p) s) < length s"
        using assms(1) Cons by simp
      have "remove_all p (s @ f) = remove_all p (drop (length p) (s @ f))"
        by (rule remove_all_match[OF assms(1) m])
      also have "\<dots> = remove_all p (drop (length p) s @ f)"
        using len by simp
      also have "\<dots> = remove_all p (drop (length p) s) @ f"
        by (rule less[OF short])
      also have "\<dots> = remove_all p s @ f"
        using remove_all_match[OF assms(1) True] by simp
      finally show ?thesis .
    next
      case False
      then have "\<not> starts_with (s @ f) p"
        using starts_with_foreign[OF assms] by blast
      then have "remove_all p (s @ f) = c # remove_all p (cs @ f)"
        using Cons by simp
      also have "\<dots> = c # remove_all p cs @ f"
        using less[of cs] Cons by simp
      also have "\<dots> = remove_all p s @ f"
        using False Cons by simp
      finally show ?thesis .
    qed
  qed
qed

text \<open>
  For a pattern that repeats one character, a match at the very end can be taken earlier in the
  same run: appending the pattern changes nothing.
\<close>

lemma uniform_overlap:
  assumes "set p \<subseteq> {x}" and "starts_with (s @ p) p" and "\<not> starts_with s p"
  shows "drop (length p) (s @ p) = s"
proof -
  from assms(2) obtain t where t: "s @ p = p @ t" by (auto simp: starts_with_iff)
  then consider u where "s = p @ u" | u where "s @ u = p" "p = u @ t"
    by (auto simp: append_eq_append_conv2)
  then show ?thesis
  proof cases
    case 1
    with assms(3) show ?thesis by (auto simp: starts_with_iff)
  next
    case 2
    have "set s \<subseteq> {x}" "set t \<subseteq> {x}"
      using assms(1) 2 by (metis Un_subset_iff set_append)+
    then have "s = replicate (length s) x" "t = replicate (length t) x"
      by (metis replicate_length_same insert_absorb insert_subset singletonD subset_iff)+
    moreover have "length s = length t"
      using t by (metis add.commute add_left_cancel length_append)
    ultimately have "t = s" by simp
    then show ?thesis using t by simp
  qed
qed

lemma remove_all_uniform:
  assumes "p \<noteq> []" and "set p \<subseteq> {x}"
  shows "remove_all p (s @ p) = remove_all p s"
proof (induction s rule: measure_induct_rule[where f = length])
  case (less s)
  show ?case
  proof (cases s)
    case Nil
    then show ?thesis using remove_all_prefix[OF assms(1), of "[]"] by simp
  next
    case (Cons c cs)
    show ?thesis
    proof (cases "starts_with s p")
      case True
      then have m: "starts_with (s @ p) p" and len: "length p \<le> length s"
        by (auto simp: starts_with_iff)
      have short: "length (drop (length p) s) < length s"
        using assms(1) Cons by simp
      have "remove_all p (s @ p) = remove_all p (drop (length p) (s @ p))"
        by (rule remove_all_match[OF assms(1) m])
      also have "\<dots> = remove_all p (drop (length p) s @ p)"
        using len by simp
      also have "\<dots> = remove_all p (drop (length p) s)"
        by (rule less[OF short])
      also have "\<dots> = remove_all p s"
        using remove_all_match[OF assms(1) True] by simp
      finally show ?thesis .
    next
      case False
      show ?thesis
      proof (cases "starts_with (s @ p) p")
        case True
        have "remove_all p (s @ p) = remove_all p (drop (length p) (s @ p))"
          by (rule remove_all_match[OF assms(1) True])
        then show ?thesis using uniform_overlap[OF assms(2) True False] by simp
      next
        case no: False
        then have "remove_all p (s @ p) = c # remove_all p (cs @ p)"
          using Cons by simp
        also have "\<dots> = c # remove_all p cs"
          using less[of cs] Cons by simp
        also have "\<dots> = remove_all p s"
          using False Cons by simp
        finally show ?thesis .
      qed
    qed
  qed
qed

lemma sanitizeResponse_fenced: "sanitizeResponse (''```json'' @ doc @ ''```'') = sanitizeResponse doc"
proof -
  have "remove_all ''```json'' (''```json'' @ doc @ ''```'') = remove_all ''```json'' (doc @ ''```'')"
    by (rule remove_all_prefix) simp
  also have "\<dots> = remove_all ''```json'' doc @ ''```''"
    by (rule remove_all_foreign) simp_all
  finally have "remove_all ''```'' (remove_all ''```json'' (''```json'' @ doc @ ''```''))
                = remove_all ''```'' (remove_all ''```json'' doc @ ''```'')"
    by simp
  also have "\<dots> = remove_all ''```'' (remove_all ''```json'' doc)"
    by (rule remove_all_uniform[where x = "CHR 0x60"]) simp_all
  finally show ?thesis by (simp add: sanitizeResponse_def)
qed

lemma remove_all_no_head: "p \<noteq> [] \<Longrightarrow> hd p \<notin> set s \<Longrightarrow> remove_all p s = s"
proof (induction s)
  case Nil
  then show ?case by simp
next
  case (Cons c cs)
  have "\<not> starts_with (c # cs) p"
    using Cons.prems by (cases p) auto
  with Cons show ?case by simp
qed

lemma sanitizeResponse_plain: "CHR 0x60 \<notin> set doc \<Longrightarrow> sanitizeResponse doc = trim doc"
  by (simp add: sanitizeResponse_def remove_all_no_head)

section \<open>Validation of the scenario request\<close>

lemma z_whole_absent: "z_default (z_number True lo hi) d None = Inr d"
  by (simp add: z_default_def)




lemma z_and_issues: "isl ra \<or> isl rb \<Longrightarrow> z_and ra rb = Inl (issues_of ra @ issues_of rb)"
  by (cases ra; cases rb) (auto simp: z_and_def issues_of_def)

lemma z_and_isl: "isl (z_and ra rb) \<longleftrightarrow> isl ra \<or> isl rb"
  by (cases ra; cases rb) (auto simp: z_and_def)

lemma issues_z_and: "issues_of (z_and ra rb) = (if isl ra \<or> isl rb then issues_of ra @ issues_of rb else [])"
  by (cases ra; cases rb) (auto simp: z_and_def issues_of_def)

lemma isl_under: "isl (under k r) \<longleftrightarrow> isl r"
  by (cases r) (simp_all add: under_def)









subsection \<open>Out-of-range numbers on the example brief\<close>

lemma example_assistant: "truthy (OPENAI_API_KEY example_env)" "truthy (OPENAI_ASSISTANT_ID example_env)"
  by (simp_all add: example_env_def truthy_def)

lemma example_brief_valid: "scenarioRequestSchema (Some (JObj (example_brief @ [(''focusOnProduct'', JNum 4)]))) = Inr example_rq"
  by code_simp



section \<open>Fenced documents\<close>

lemma remove_json_bare:
  "(doc \<noteq> [] \<longrightarrow> hd doc \<noteq> CHR 0x60 \<and> hd doc \<noteq> CHR ''j'') \<Longrightarrow>
   remove_all ''```json'' (''```'' @ doc) = ''```'' @ remove_all ''```json'' doc"
  by (cases doc) auto

lemma sanitizeResponse_bare_fence:
  assumes "doc \<noteq> [] \<longrightarrow> hd doc \<noteq> CHR 0x60 \<and> hd doc \<noteq> CHR ''j''"
  shows "sanitizeResponse (''```'' @ doc @ ''```'') = sanitizeResponse doc"
proof -
  have "doc = [] \<Longrightarrow> ?thesis" by (simp add: sanitizeResponse_def)
  moreover have ?thesis if "doc \<noteq> []"
  proof -
    have d: "hd (doc @ ''```'') \<noteq> CHR 0x60 \<and> hd (doc @ ''```'') \<noteq> CHR ''j''"
      using assms that by simp
    have "remove_all ''```json'' (''```'' @ doc @ ''```'') = ''```'' @ remove_all ''```json'' (doc @ ''```'')"
      by (rule remove_json_bare) (use d in simp)
    also have "\<dots> = ''```'' @ remove_all ''```json'' doc @ ''```''"
      by (simp add: remove_all_foreign)
    finally have "remove_all ''```'' (remove_all ''```json'' (''```'' @ doc @ ''```''))
                  = remove_all ''```'' (''```'' @ (remove_all ''```json'' doc @ ''```''))"
      by simp
    also have "\<dots> = remove_all ''```'' (remove_all ''```json'' doc @ ''```'')"
      by (rule remove_all_prefix) simp
    also have "\<dots> = remove_all ''```'' (remove_all ''```json'' doc)"
      by (rule remove_all_uniform[where x = "CHR 0x60"]) simp_all
    finally show ?thesis by (simp add: sanitizeResponse_def)
  qed
  ultimately show ?thesis by blast
qed

text \<open>
  Claim C6, as amended. Take a message body made of a document between the opening fence
  \<open>```json\<close> and the closing fence \<open>```\<close>. Sanitising the body gives what sanitising the
  document alone gives, so the generator parses and validates the fenced body exactly as it
  does the bare document; the same holds for a bare opening fence \<open>```\<close> when the document
  does not begin with a backtick or with \<open>j\<close>. In particular, when the document holds no
  backtick and, trimmed, parses to a value that the batch schema accepts, the fenced body is
  accepted with the same batch.
\<close>

theorem fenced_document_is_accepted:
  "sanitizeResponse (''```json'' @ doc @ ''```'') = sanitizeResponse doc
   \<and> parse_text parse (''```json'' @ doc @ ''```'') = parse_text parse doc
   \<and> ((doc \<noteq> [] \<longrightarrow> hd doc \<noteq> CHR 0x60 \<and> hd doc \<noteq> CHR ''j'') \<longrightarrow>
        sanitizeResponse (''```'' @ doc @ ''```'') = sanitizeResponse doc
        \<and> parse_text parse (''```'' @ doc @ ''```'') = parse_text parse doc)
   \<and> (CHR 0x60 \<notin> set doc \<and> parse (trim doc) = Some j \<and> scenarioResponseSchema (Some j) = Inr b \<longrightarrow>
        sanitizeResponse (''```json'' @ doc @ ''```'') = trim doc
        \<and> parse_text parse (''```json'' @ doc @ ''```'') = Inr b)"
proof -
  have a: "sanitizeResponse (''```json'' @ doc @ ''```'') = sanitizeResponse doc"
    by (rule sanitizeResponse_fenced)
  then have b: "parse_text parse (''```json'' @ doc @ ''```'') = parse_text parse doc"
    by (simp add: parse_text_def)
  have c: "sanitizeResponse (''```'' @ doc @ ''```'') = sanitizeResponse doc
        \<and> parse_text parse (''```'' @ doc @ ''```'') = parse_text parse doc"
    if "doc \<noteq> [] \<longrightarrow> hd doc \<noteq> CHR 0x60 \<and> hd doc \<noteq> CHR ''j''"
    using sanitizeResponse_bare_fence[OF that] by (simp add: parse_text_def)
  have d: "sanitizeResponse (''```json'' @ doc @ ''```'') = trim doc
        \<and> parse_text parse (''```json'' @ doc @ ''```'') = Inr b"
    if "CHR 0x60 \<notin> set doc \<and> parse (trim doc) = Some j \<and> scenarioResponseSchema (Some j) = Inr b"
    using that a by (simp add: parse_text_def sanitizeResponse_plain)
  from a b c d show ?thesis by blast
qed

lemma two_text_plain: "CHR 0x60 \<notin> set two_text"
  by code_simp

lemma two_text_trimmed: "trim two_text = two_text"
  by code_simp

theorem fenced_document_is_accepted_witness:
  "two_text \<noteq> [] \<and> hd two_text \<noteq> CHR 0x60 \<and> hd two_text \<noteq> CHR ''j''
   \<and> CHR 0x60 \<notin> set two_text
   \<and> reads two_text (batch_json two_batch) (trim two_text) = Some (batch_json two_batch)
   \<and> scenarioResponseSchema (Some (batch_json two_batch)) = Inr two_batch
   \<and> sanitizeResponse (''```json'' @ two_text @ ''```'') = two_text
   \<and> sanitizeResponse (''```'' @ two_text @ ''```'') = sanitizeResponse two_text
   \<and> parse_text (reads two_text (batch_json two_batch)) (''```json'' @ two_text @ ''```'') = Inr two_batch"
proof -
  have h: "two_text \<noteq> []" "hd two_text \<noteq> CHR 0x60" "hd two_text \<noteq> CHR ''j''"
    by (simp_all add: two_text_def)
  have p: "reads two_text (batch_json two_batch) (trim two_text) = Some (batch_json two_batch)"
    by (simp add: reads_def two_text_trimmed)
  have v: "scenarioResponseSchema (Some (batch_json two_batch)) = Inr two_batch"
    by (simp add: scenarioResponseSchema_batch two_batch_def)
  note T = fenced_document_is_accepted[of two_text "reads two_text (batch_json two_batch)"
              "batch_json two_batch" two_batch]
  from T h have bare: "sanitizeResponse (''```'' @ two_text @ ''```'') = sanitizeResponse two_text"
    by blast
  from T two_text_plain p v
  have "sanitizeResponse (''```json'' @ two_text @ ''```'') = trim two_text
        \<and> parse_text (reads two_text (batch_json two_batch)) (''```json'' @ two_text @ ''```'')
            = Inr two_batch"
    by blast
  then have "sanitizeResponse (''```json'' @ two_text @ ''```'') = two_text
        \<and> parse_text (reads two_text (batch_json two_batch)) (''```json'' @ two_text @ ''```'')
            = Inr two_batch"
    by (simp only: two_text_trimmed)
  with h two_text_plain p v bare show ?thesis by blast
qed

text \<open>
  Claim C6 as it was stated does not hold for every markdown code fence. A fence whose info
  string is not \<open>json\<close> in lower case is not removed: of the opening fence \<open>```JSON\<close> the
  letters stay in front of the document, and a parser that reads the document does not read
  what is left.
\<close>

theorem other_fence_is_not_stripped:
  "sanitizeResponse (''```JSON'' @ two_text @ ''```'') = ''JSON'' @ two_text
   \<and> parse_text (reads two_text (batch_json two_batch)) two_text = Inr two_batch
   \<and> parse_text (reads two_text (batch_json two_batch)) (''```JSON'' @ two_text @ ''```'')
       = Inl SyntaxError"
proof -
  have s: "sanitizeResponse (''```JSON'' @ two_text @ ''```'') = ''JSON'' @ two_text"
    by code_simp
  have t: "sanitizeResponse two_text = two_text"
    by (simp add: sanitizeResponse_plain two_text_plain two_text_trimmed)
  have v: "scenarioResponseSchema (Some (batch_json two_batch)) = Inr two_batch"
    by (simp add: scenarioResponseSchema_batch two_batch_def)
  have n: "''JSON'' @ two_text \<noteq> two_text" by simp
  show ?thesis
    unfolding parse_text_def s t by (simp only: reads_def n v if_True if_False option.case sum.case simp_thms)
qed

section \<open>The scenario route on the example inputs\<close>

lemma fenced_two_text: "sanitizeResponse (''```json'' @ two_text @ ''```'') = two_text"
  by (simp only: sanitizeResponse_fenced sanitizeResponse_plain[OF two_text_plain] two_text_trimmed)

theorem batch_schema_accepts_nonempty_witness:
  "length (scenarios six_batch) = 6 \<and> distinct (map id_s (scenarios six_batch))
   \<and> scenarioResponseSchema (Some (batch_json six_batch)) = Inr six_batch
   \<and> scenarioResponseSchema (Some (batch_json \<lparr>scenarios = []\<rparr>)) = Inl [[''scenarios'']]
   \<and> length (scenarios two_batch) = 2
   \<and> scenarioResponseSchema (Some (batch_json two_batch)) = Inr two_batch
   \<and> truthy (OPENAI_API_KEY example_env) \<and> truthy (OPENAI_ASSISTANT_ID example_env)
   \<and> scenarioRequestSchema (Some (JObj (example_brief @ [(''focusOnProduct'', JNum 4)]))) = Inr example_rq
   \<and> JSON_parse example_api (sanitizeResponse (''```json'' @ two_text @ ''```''))
       = Some (batch_json two_batch)
   \<and> fst (scenarios_POST example_rt example_api example_env
             (Some (JObj (example_brief @ [(''focusOnProduct'', JNum 4)]))) boot)
       = Replied \<lparr>http_status = 200, body = ScenariosBody ''thread_1'' (scenarios two_batch)\<rparr>"
proof -
  have six: "length (scenarios six_batch) = 6" "distinct (map id_s (scenarios six_batch))"
    "scenarios six_batch \<noteq> []"
    by (simp_all add: six_batch_def numbered_def)
  have two: "length (scenarios two_batch) = 2" "scenarios two_batch \<noteq> []"
    by (simp_all add: two_batch_def)
  have empty: "scenarios \<lparr>scenarios = []\<rparr> = []" by simp
  have c: "messages_create example_api (rq_threadId example_rq) (contextPrompt example_rt example_rq)"
    by (simp add: example_api_def)
  have r: "runs_createAndPoll example_api (rq_threadId example_rq)
             (orElse (OPENAI_ASSISTANT_ID example_env) []) run_instructions = Some ''completed''"
    by (simp add: example_api_def)
  have l: "messages_list example_api (rq_threadId example_rq)
             = Some [\<lparr>role = ''user'', msg_content = [TextContent (Some ''brief'')]\<rparr>,
                     \<lparr>role = ''assistant'',
                      msg_content = [OtherContent ''image_file'',
                                     TextContent (Some (''```json'' @ two_text @ ''```''))]\<rparr>]"
    by (simp add: example_api_def)
  have f: "find_text_part [\<lparr>role = ''user'', msg_content = [TextContent (Some ''brief'')]\<rparr>,
                     \<lparr>role = ''assistant'',
                      msg_content = [OtherContent ''image_file'',
                                     TextContent (Some (''```json'' @ two_text @ ''```''))]\<rparr>]
             = Some (TextContent (Some (''```json'' @ two_text @ ''```'')))"
    by (simp add: find_text_part_def is_text_def)
  have p: "JSON_parse example_api (sanitizeResponse (''```json'' @ two_text @ ''```''))
             = Some (batch_json two_batch)"
    unfolding fenced_two_text by (simp add: example_api_def reads_def)
  have t: "rq_threadId example_rq = ''thread_1''" by (simp add: example_rq_def)
  note A = batch_schema_accepts_nonempty[of six_batch]
  note B = batch_schema_accepts_nonempty[of "\<lparr>scenarios = []\<rparr>"]
  note C = batch_schema_accepts_nonempty[of two_batch example_env
             "JObj (example_brief @ [(''focusOnProduct'', JNum 4)])" example_rq example_api example_rt
             _ "''```json'' @ two_text @ ''```''" boot]
  from A six have a: "scenarioResponseSchema (Some (batch_json six_batch)) = Inr six_batch" by simp
  from B have b: "scenarioResponseSchema (Some (batch_json \<lparr>scenarios = []\<rparr>)) = Inl [[''scenarios'']]"
    by simp
  from C two have c1: "scenarioResponseSchema (Some (batch_json two_batch)) = Inr two_batch" by simp
  from C example_assistant example_brief_valid c r l f p two
  have c2: "fst (scenarios_POST example_rt example_api example_env
             (Some (JObj (example_brief @ [(''focusOnProduct'', JNum 4)]))) boot)
       = Replied \<lparr>http_status = 200, body = ScenariosBody ''thread_1'' (scenarios two_batch)\<rparr>"
    unfolding t by blast
  from six two a b c1 c2 example_assistant example_brief_valid p show ?thesis by blast
qed

end
